theory Spec2Isabelle
  imports Main "HOL-Library.AList"
begin

section \<open>Paths\<close>

text \<open>
  A path is the list of its components below the root: \<^verbatim>\<open>/ws/devel/lib/x.so\<close> is
  \<open>[''ws'', ''devel'', ''lib'', ''x.so'']\<close> and \<open>[]\<close> is the root. The components
  \<^verbatim>\<open>.\<close> and \<^verbatim>\<open>..\<close> are kept as they are written, the file system resolves them:
  \<^verbatim>\<open>os.path.join(dest, '.')\<close> is \<open>dest @ [''.'']\<close>. \<^verbatim>\<open>os.path.relpath\<close> compares the
  normal forms of its two paths (\<^verbatim>\<open>os.path.abspath\<close>) and returns \<^verbatim>\<open>.\<close> when nothing
  is left of the path.
\<close>

type_synonym path = "string list"

definition path_join :: "path \<Rightarrow> path \<Rightarrow> path" where
  "path_join p q = p @ q"

fun common_prefix :: "path \<Rightarrow> path \<Rightarrow> path" where
  "common_prefix (x # xs) (y # ys) = (if x = y then x # common_prefix xs ys else [])"
| "common_prefix xs ys = []"

definition normpath :: "path \<Rightarrow> path" where
  "normpath p =
     foldl (\<lambda>comps c. if c = ''.'' then comps else if c = ''..'' then butlast comps else comps @ [c])
       [] p"

definition relpath :: "path \<Rightarrow> path \<Rightarrow> path" where
  "relpath p start =
     (let start_list = normpath start;
          path_list = normpath p;
          i = length (common_prefix start_list path_list);
          rel_list = replicate (length start_list - i) ''..'' @ drop i path_list
      in if rel_list = [] then [''.''] else rel_list)"

definition path_split_head :: "path \<Rightarrow> path" where
  "path_split_head p = butlast p"


section \<open>The file system\<close>

text \<open>
  The operating system's calls (\<^verbatim>\<open>os.path.exists\<close>, \<^verbatim>\<open>os.path.islink\<close>,
  \<^verbatim>\<open>os.path.realpath\<close>, \<^verbatim>\<open>os.symlink\<close>, \<^verbatim>\<open>os.mkdir\<close>, \<^verbatim>\<open>os.unlink\<close>,
  \<^verbatim>\<open>os.removedirs\<close>) are not code of the repository. They are modelled on a file
  system that maps the real path of a node to the node. A symbolic link holds an absolute
  target.

  \<open>resolve\<close> walks a path as the kernel does, from the directory \<open>cur\<close>: every component
  is looked up in the directory reached so far, \<^verbatim>\<open>.\<close> stays there, \<^verbatim>\<open>..\<close> goes to its
  parent, and a symbolic link, wherever it stands in the path, is replaced by its target.
  At most \<open>SYMLOOP_MAX\<close> links are followed in one walk, then the kernel answers
  \<^verbatim>\<open>ELOOP\<close>; the walk returns the number of links it may still follow and the real path
  it has reached. The root always exists and is a directory.
\<close>

datatype node = Dir | File string | Link path

type_synonym filesystem = "(path \<times> node) list"

datatype os_error =
  FileExistsError | FileNotFoundError | IsADirectoryError | NotADirectoryError
  | DirectoryNotEmpty | TooManyLinks | InvalidArgument

datatype py_error = OSError os_error | TypeError | YAMLError | OtherError string

definition lookup :: "filesystem \<Rightarrow> path \<Rightarrow> node option" where
  "lookup fs p = (if p = [] then Some Dir else map_of fs p)"

definition SYMLOOP_MAX :: nat where
  "SYMLOOP_MAX = 40"

fun resolve :: "nat \<Rightarrow> filesystem \<Rightarrow> path \<Rightarrow> path \<Rightarrow> os_error + nat \<times> path" where
  "resolve n fs cur [] = Inr (n, cur)"
| "resolve n fs cur (c # rest) =
     (case lookup fs cur of
        None \<Rightarrow> Inl FileNotFoundError
      | Some (File x) \<Rightarrow> Inl NotADirectoryError
      | Some (Link t) \<Rightarrow> Inl NotADirectoryError
      | Some Dir \<Rightarrow>
          (if c = ''.'' then resolve n fs cur rest
           else if c = ''..'' then
             (case lookup fs (butlast cur) of
                Some Dir \<Rightarrow> resolve n fs (butlast cur) rest
              | _ \<Rightarrow> Inl NotADirectoryError)
           else
             (case lookup fs (cur @ [c]) of
                None \<Rightarrow> Inl FileNotFoundError
              | Some (Link t) \<Rightarrow>
                  (case n of 0 \<Rightarrow> Inl TooManyLinks | Suc m \<Rightarrow> resolve m fs [] (t @ rest))
              | Some nd \<Rightarrow> resolve n fs (cur @ [c]) rest)))"

text \<open>\<^verbatim>\<open>stat\<close>: the walk from the root, the last component followed as well.\<close>

definition stat :: "filesystem \<Rightarrow> path \<Rightarrow> os_error + path" where
  "stat fs p = (case resolve SYMLOOP_MAX fs [] p of Inl e \<Rightarrow> Inl e | Inr (m, q) \<Rightarrow> Inr q)"

text \<open>
  \<open>locate\<close> gives the real path of the entry a path names, the last component not
  followed: its directory is resolved, the name is appended. This is where \<^verbatim>\<open>lstat\<close>
  looks and where \<^verbatim>\<open>symlink\<close>, \<^verbatim>\<open>mkdir\<close>, \<^verbatim>\<open>unlink\<close> and \<^verbatim>\<open>rmdir\<close> work.
\<close>

definition locate :: "filesystem \<Rightarrow> path \<Rightarrow> os_error + path" where
  "locate fs p =
     (if p = [] then Inr []
      else if last p = ''.'' \<or> last p = ''..'' then stat fs p
      else
        (case resolve SYMLOOP_MAX fs [] (butlast p) of
           Inl e \<Rightarrow> Inl e
         | Inr (m, d) \<Rightarrow>
             (case lookup fs d of
                Some Dir \<Rightarrow> Inr (d @ [last p])
              | None \<Rightarrow> Inl FileNotFoundError
              | Some nd \<Rightarrow> Inl NotADirectoryError)))"

definition lstat :: "filesystem \<Rightarrow> path \<Rightarrow> node option" where
  "lstat fs p = (case locate fs p of Inl e \<Rightarrow> None | Inr q \<Rightarrow> lookup fs q)"

definition path_exists :: "filesystem \<Rightarrow> path \<Rightarrow> bool" where
  "path_exists fs p = (case stat fs p of Inl e \<Rightarrow> False | Inr q \<Rightarrow> True)"

definition islink :: "filesystem \<Rightarrow> path \<Rightarrow> bool" where
  "islink fs p = (case lstat fs p of Some (Link t) \<Rightarrow> True | _ \<Rightarrow> False)"

definition isdir :: "filesystem \<Rightarrow> path \<Rightarrow> bool" where
  "isdir fs p = (case stat fs p of Inl e \<Rightarrow> False | Inr q \<Rightarrow> lookup fs q = Some Dir)"

text \<open>
  \<^verbatim>\<open>os.path.realpath\<close> is the library's own walk: it asks for each component whether it
  is a symbolic link and follows it if so, and appends any other component, whether it
  exists or not. A walk that follows more than \<open>SYMLOOP_MAX\<close> links is given up and the
  path returned as it is.
\<close>

fun realpath_from :: "nat \<Rightarrow> filesystem \<Rightarrow> path \<Rightarrow> path \<Rightarrow> path option" where
  "realpath_from n fs cur [] = Some cur"
| "realpath_from n fs cur (c # rest) =
     (if c = ''.'' then realpath_from n fs cur rest
      else if c = ''..'' then realpath_from n fs (butlast cur) rest
      else
        (case lookup fs (cur @ [c]) of
           Some (Link t) \<Rightarrow>
             (case n of 0 \<Rightarrow> None | Suc m \<Rightarrow> realpath_from m fs [] (t @ rest))
         | _ \<Rightarrow> realpath_from n fs (cur @ [c]) rest))"

definition realpath :: "filesystem \<Rightarrow> path \<Rightarrow> path" where
  "realpath fs p = (case realpath_from SYMLOOP_MAX fs [] p of None \<Rightarrow> p | Some q \<Rightarrow> q)"

definition read_file :: "filesystem \<Rightarrow> path \<Rightarrow> os_error + string" where
  "read_file fs p =
     (case stat fs p of
        Inl e \<Rightarrow> Inl e
      | Inr q \<Rightarrow>
          (case lookup fs q of
             Some (File c) \<Rightarrow> Inr c
           | Some Dir \<Rightarrow> Inl IsADirectoryError
           | Some (Link t) \<Rightarrow> Inl TooManyLinks
           | None \<Rightarrow> Inl FileNotFoundError))"

definition has_children :: "filesystem \<Rightarrow> path \<Rightarrow> bool" where
  "has_children fs p = list_ex (\<lambda>(q, n). q \<noteq> [] \<and> butlast q = p) fs"

definition os_symlink :: "path \<Rightarrow> path \<Rightarrow> filesystem \<Rightarrow> os_error + filesystem" where
  "os_symlink src dst fs =
     (case locate fs dst of
        Inl e \<Rightarrow> Inl e
      | Inr q \<Rightarrow>
          (if lookup fs q \<noteq> None then Inl FileExistsError
           else Inr (AList.update q (Link src) fs)))"

definition os_mkdir :: "path \<Rightarrow> filesystem \<Rightarrow> os_error + filesystem" where
  "os_mkdir p fs =
     (case locate fs p of
        Inl e \<Rightarrow> Inl e
      | Inr q \<Rightarrow>
          (if lookup fs q \<noteq> None then Inl FileExistsError
           else Inr (AList.update q Dir fs)))"

definition os_unlink :: "path \<Rightarrow> filesystem \<Rightarrow> os_error + filesystem" where
  "os_unlink p fs =
     (case locate fs p of
        Inl e \<Rightarrow> Inl e
      | Inr q \<Rightarrow>
          (case lookup fs q of
             None \<Rightarrow> Inl FileNotFoundError
           | Some Dir \<Rightarrow> Inl IsADirectoryError
           | Some n \<Rightarrow> Inr (AList.delete q fs)))"

text \<open>
  \<^verbatim>\<open>rmdir\<close> refuses a path that ends in \<^verbatim>\<open>.\<close> (\<^verbatim>\<open>EINVAL\<close>) or in \<^verbatim>\<open>..\<close>
  (\<^verbatim>\<open>ENOTEMPTY\<close>), the root, a symbolic link, and a directory that has an entry.
\<close>

definition os_rmdir :: "path \<Rightarrow> filesystem \<Rightarrow> os_error + filesystem" where
  "os_rmdir p fs =
     (if p \<noteq> [] \<and> last p = ''.'' then Inl InvalidArgument
      else if p \<noteq> [] \<and> last p = ''..'' then Inl DirectoryNotEmpty
      else
        (case locate fs p of
           Inl e \<Rightarrow> Inl e
         | Inr q \<Rightarrow>
             (case lookup fs q of
                None \<Rightarrow> Inl FileNotFoundError
              | Some Dir \<Rightarrow>
                  (if q = [] \<or> has_children fs q then Inl DirectoryNotEmpty
                   else Inr (AList.delete q fs))
              | Some n \<Rightarrow> Inl NotADirectoryError)))"

text \<open>
  \<^verbatim>\<open>os.removedirs(name)\<close>: \<^verbatim>\<open>rmdir(name)\<close>, whose error is raised to the caller, then
  \<^verbatim>\<open>rmdir\<close> of each parent upward until one fails; that failure is swallowed.
\<close>

fun removedirs_up :: "path \<Rightarrow> filesystem \<Rightarrow> filesystem" where
  "removedirs_up hd_path fs =
     (if hd_path = [] then fs
      else (case os_rmdir hd_path fs of
              Inl e \<Rightarrow> fs
            | Inr fs' \<Rightarrow> removedirs_up (butlast hd_path) fs'))"

declare removedirs_up.simps [simp del]

definition os_removedirs :: "path \<Rightarrow> filesystem \<Rightarrow> os_error + filesystem" where
  "os_removedirs name fs =
     (case os_rmdir name fs of
        Inl e \<Rightarrow> Inl e
      | Inr fs' \<Rightarrow> Inr (removedirs_up (butlast name) fs'))"

text \<open>
  \<^verbatim>\<open>open(p, 'w')\<close> as far as the tree decides it: the directory of \<open>p\<close> must resolve, and
  \<open>p\<close> must not be a directory.
\<close>

definition open_for_writing :: "filesystem \<Rightarrow> path \<Rightarrow> os_error option" where
  "open_for_writing fs p =
     (case locate fs p of
        Inl e \<Rightarrow> Some e
      | Inr q \<Rightarrow> (case lookup fs q of Some Dir \<Rightarrow> Some IsADirectoryError | _ \<Rightarrow> None))"

section \<open>The persisted state and the log\<close>

text \<open>
  The collision ledger (\<^verbatim>\<open>devel_collisions.txt\<close>) and the package manifests
  (\<^verbatim>\<open>devel_manifest.txt\<close>) are held as parsed documents, keyed by the path of their
  file: a ledger is the dictionary the source builds from the rows, a manifest the first
  line (the package's source directory) and the rows of (source, destination) pairs.
  The two kinds of text file are kept beside the tree of directories, files and links:
  a file exists when it has a document. The directory of a manifest is made by
  \<^verbatim>\<open>mkdir_p\<close> of \<^verbatim>\<open>catkin_tools.common\<close>, which is not among the sources, before the
  manifest is written; the directory of the ledger is made by nobody, and writing the
  ledger fails when the tree has no such directory.
  The logger's lines are kept in order; \<open>LogErr\<close> is \<^verbatim>\<open>logger.err\<close>, \<open>LogOut\<close> is
  \<^verbatim>\<open>logger.out\<close>.
\<close>

type_synonym ledger = "path \<Rightarrow> int option"

type_synonym manifest = "string \<times> (path \<times> path) list"

datatype message =
  Unlinking path
  | Could_not_unlink path
  | Already_unlinked
  | No_private_devel_path path
  | No_devel_manifest path
  | Dest_file_missing path
  | Dest_file_not_symlink path
  | Linked path path
  | Symlinking path
  | Could_not_create_symlink path path
  | Cannot_create_directory path
  | Cannot_symlink_to_existing path path
  | Source_hash string
  | Dest_hash string
  | Cleaning path path
  | Could_not_clean_linked_files

datatype log_line = LogOut message | LogErr message

record world =
  w_fs :: filesystem
  w_collisions :: "path \<Rightarrow> ledger option"
  w_manifests :: "path \<Rightarrow> manifest option"
  w_log :: "log_line list"

datatype 'a result = Returned 'a | Raised py_error

datatype 'a flow = Next 'a | Return int 'a | Raise py_error 'a

fun for_each :: "('s \<Rightarrow> 'x \<Rightarrow> 's flow) \<Rightarrow> 's \<Rightarrow> 'x list \<Rightarrow> 's flow" where
  "for_each body s [] = Next s"
| "for_each body s (x # xs) =
     (case body s x of
        Next s' \<Rightarrow> for_each body s' xs
      | Return c s' \<Rightarrow> Return c s'
      | Raise e s' \<Rightarrow> Raise e s')"

definition logger_out :: "message \<Rightarrow> world \<Rightarrow> world" where
  "logger_out m w = w\<lparr>w_log := w_log w @ [LogOut m]\<rparr>"

definition logger_err :: "message \<Rightarrow> world \<Rightarrow> world" where
  "logger_err m w = w\<lparr>w_log := w_log w @ [LogErr m]\<rparr>"

section \<open>clean_linked_files\<close>

definition devel_collisions_file_path :: "path \<Rightarrow> path" where
  "devel_collisions_file_path metadata_path = path_join metadata_path [''devel_collisions.txt'']"

text \<open>The first loop: \<^verbatim>\<open>for dest_file in files_that_collide\<close>.\<close>

fun add_collisions :: "ledger \<Rightarrow> path list \<Rightarrow> ledger" where
  "add_collisions dest_collisions [] = dest_collisions"
| "add_collisions dest_collisions (dest_file # rest) =
     add_collisions
       (case dest_collisions dest_file of
          Some n \<Rightarrow> dest_collisions(dest_file \<mapsto> n + 1)
        | None \<Rightarrow> dest_collisions(dest_file \<mapsto> 1))
       rest"

text \<open>
  The body of the second loop, \<^verbatim>\<open>for dest_file in files_to_clean\<close>, on the world and
  the dictionary \<^verbatim>\<open>dest_collisions\<close>. The count is read once, before the unlink.
\<close>

definition n_collisions_of :: "ledger \<Rightarrow> path \<Rightarrow> int" where
  "n_collisions_of dest_collisions dest_file =
     (case dest_collisions dest_file of Some n \<Rightarrow> n | None \<Rightarrow> 0)"

definition update_collisions :: "ledger \<Rightarrow> path \<Rightarrow> int \<Rightarrow> ledger" where
  "update_collisions dest_collisions dest_file n =
     (if n > 1 then dest_collisions(dest_file \<mapsto> n_collisions_of dest_collisions dest_file - 1)
      else if n = 1 then dest_collisions(dest_file := None)
      else dest_collisions)"

definition unlink_dest :: "bool \<Rightarrow> path \<Rightarrow> world \<Rightarrow> world flow" where
  "unlink_dest dry_run dest_file w =
     (let w1 = logger_out (Unlinking dest_file) w in
      if dry_run then Next w1
      else if path_exists (w_fs w1) dest_file then
        (case os_unlink dest_file (w_fs w1) of
           Inl e \<Rightarrow> Raise (OSError e) (logger_err (Could_not_unlink dest_file) w1)
         | Inr fs1 \<Rightarrow>
             (case os_removedirs (path_split_head dest_file) fs1 of
                Inl e \<Rightarrow> Next (w1\<lparr>w_fs := fs1\<rparr>)
              | Inr fs2 \<Rightarrow> Next (w1\<lparr>w_fs := fs2\<rparr>)))
      else Next (logger_out Already_unlinked w1))"

definition clean_file :: "bool \<Rightarrow> world \<times> ledger \<Rightarrow> path \<Rightarrow> (world \<times> ledger) flow" where
  "clean_file dry_run s dest_file =
     (let w = fst s; dest_collisions = snd s;
          n_collisions = n_collisions_of dest_collisions dest_file
      in if n_collisions = 0 then
           (case unlink_dest dry_run dest_file w of
              Next w' \<Rightarrow> Next (w', update_collisions dest_collisions dest_file n_collisions)
            | Return c w' \<Rightarrow> Return c (w', dest_collisions)
            | Raise e w' \<Rightarrow> Raise e (w', dest_collisions))
         else Next (w, update_collisions dest_collisions dest_file n_collisions))"

text \<open>
  Loading \<^verbatim>\<open>devel_collisions.txt\<close>: the empty dictionary when the file does not exist.
  The routine writes the dictionary back when the run is not dry; \<^verbatim>\<open>open\<close> raises when
  the file cannot be opened for writing.
\<close>

definition load_dest_collisions :: "world \<Rightarrow> path \<Rightarrow> ledger" where
  "load_dest_collisions w metadata_path =
     (case w_collisions w (devel_collisions_file_path metadata_path) of
        Some d \<Rightarrow> d | None \<Rightarrow> Map.empty)"

definition clean_linked_files ::
  "path \<Rightarrow> path list \<Rightarrow> path list \<Rightarrow> bool \<Rightarrow> world \<Rightarrow> unit result \<times> world" where
  "clean_linked_files metadata_path files_that_collide files_to_clean dry_run w =
     (let file_path = devel_collisions_file_path metadata_path;
          loaded = load_dest_collisions w metadata_path;
          dest_collisions = add_collisions loaded files_that_collide
      in case for_each (clean_file dry_run) (w, dest_collisions) files_to_clean of
           Next (w', dc) \<Rightarrow>
             (if dry_run then (Returned (), w')
              else
                (case open_for_writing (w_fs w') file_path of
                   Some e \<Rightarrow> (Raised (OSError e), w')
                 | None \<Rightarrow>
                     (Returned (), w'\<lparr>w_collisions := (w_collisions w')(file_path \<mapsto> dc)\<rparr>)))
         | Return c (w', dc) \<Rightarrow> (Returned (), w')
         | Raise e (w', dc) \<Rightarrow> (Raised e, w'))"

section \<open>unlink_devel_products\<close>

definition DEVEL_MANIFEST_FILENAME :: string where
  "DEVEL_MANIFEST_FILENAME = ''devel_manifest.txt''"

text \<open>
  The loop over the manifest's rows: a row whose destination does not exist is warned
  about, a destination that is not a symbolic link ends the function with \<open>-1\<close>, any
  other destination is appended to \<^verbatim>\<open>files_to_clean\<close>.
\<close>

definition check_dest :: "world \<times> path list \<Rightarrow> path \<times> path \<Rightarrow> (world \<times> path list) flow" where
  "check_dest s row =
     (let w = fst s; files_to_clean = snd s; dest_file = snd row in
      if \<not> path_exists (w_fs w) dest_file then
        Next (logger_err (Dest_file_missing dest_file) w, files_to_clean)
      else if \<not> islink (w_fs w) dest_file then
        Return (- 1) (logger_err (Dest_file_not_symlink dest_file) w, files_to_clean)
      else Next (w, files_to_clean @ [dest_file]))"

definition unlink_devel_products ::
  "path \<Rightarrow> path \<Rightarrow> path \<Rightarrow> path \<Rightarrow> bool \<Rightarrow> world \<Rightarrow> int result \<times> world" where
  "unlink_devel_products devel_space_abs private_devel_path metadata_path
       package_metadata_path dry_run w =
     (if \<not> path_exists (w_fs w) private_devel_path then
        (Returned 0, logger_err (No_private_devel_path private_devel_path) w)
      else
        (let devel_manifest_file_path = path_join package_metadata_path [DEVEL_MANIFEST_FILENAME]
         in case w_manifests w devel_manifest_file_path of
              None \<Rightarrow> (Returned 1, logger_err (No_devel_manifest devel_manifest_file_path) w)
            | Some devel_manifest \<Rightarrow>
                (case for_each check_dest (w, []) (snd devel_manifest) of
                   Return c (w1, files_to_clean) \<Rightarrow> (Returned c, w1)
                 | Raise e (w1, files_to_clean) \<Rightarrow> (Raised e, w1)
                 | Next (w1, files_to_clean) \<Rightarrow>
                     (case clean_linked_files metadata_path [] files_to_clean dry_run w1 of
                        (Returned u, w2) \<Rightarrow> (Returned 0, w2)
                      | (Raised e, w2) \<Rightarrow> (Raised e, w2)))))"

section \<open>link_devel_products\<close>

definition DEVEL_LINK_PREBUILD_SKIPLIST :: "path list" where
  "DEVEL_LINK_PREBUILD_SKIPLIST = [[''.catkin''], [''.rosinstall'']]"

definition DEVEL_LINK_SKIPLIST :: "path list" where
  "DEVEL_LINK_SKIPLIST = DEVEL_LINK_PREBUILD_SKIPLIST @
     [[''etc'', ''catkin'', ''profile.d'', ''05.catkin_make.bash''],
      [''etc'', ''catkin'', ''profile.d'', ''05.catkin_make_isolated.bash''],
      [''etc'', ''catkin'', ''profile.d'', ''05.catkin-test-results.sh''],
      [''env.sh''],
      [''setup.bash''],
      [''setup.fish''],
      [''setup.zsh''],
      [''setup.sh''],
      [''local_setup.bash''],
      [''local_setup.fish''],
      [''local_setup.zsh''],
      [''local_setup.sh''],
      [''_setup_util.py'']]"

definition DEVEL_LINK_SKIP_DIRECTORIES :: "string list" where
  "DEVEL_LINK_SKIP_DIRECTORIES = [''__pycache__'']"

definition select_skiplist :: "bool \<Rightarrow> path list" where
  "select_skiplist prebuild =
     (if prebuild then DEVEL_LINK_PREBUILD_SKIPLIST else DEVEL_LINK_SKIPLIST)"

definition should_skip_file :: "path list \<Rightarrow> path \<Rightarrow> path \<Rightarrow> string \<Rightarrow> bool" where
  "should_skip_file skiplist source_devel_path source_path filename =
     (let rel = relpath (path_join source_path [filename]) source_devel_path in
      if rel \<in> set skiplist then True
      else list_ex (\<lambda>directory. directory \<in> set DEVEL_LINK_SKIP_DIRECTORIES) rel)"

text \<open>
  The state of the walk: the world, the list \<^verbatim>\<open>products\<close> and the list
  \<^verbatim>\<open>files_that_collide\<close>.
\<close>

record link_state =
  l_world :: world
  products :: "(path \<times> path) list"
  files_that_collide :: "path list"

definition l_out :: "message \<Rightarrow> link_state \<Rightarrow> link_state" where
  "l_out m s = s\<lparr>l_world := logger_out m (l_world s)\<rparr>"

definition l_err :: "message \<Rightarrow> link_state \<Rightarrow> link_state" where
  "l_err m s = s\<lparr>l_world := logger_err m (l_world s)\<rparr>"

definition l_set_fs :: "filesystem \<Rightarrow> link_state \<Rightarrow> link_state" where
  "l_set_fs fs' s = s\<lparr>l_world := (l_world s)\<lparr>w_fs := fs'\<rparr>\<rparr>"

text \<open>The body of \<^verbatim>\<open>for dirname in dirs\<close>.\<close>

definition link_dir :: "path \<Rightarrow> path \<Rightarrow> link_state \<Rightarrow> string \<Rightarrow> link_state flow" where
  "link_dir source_path dest_path s dirname =
     (if dirname \<in> set DEVEL_LINK_SKIP_DIRECTORIES then Next s
      else
        (let source_dir = path_join source_path [dirname];
             dest_dir = path_join dest_path [dirname];
             fs = w_fs (l_world s)
         in if islink fs source_dir then
              (let s1 = s\<lparr>products := products s @ [(source_dir, dest_dir)]\<rparr> in
               if path_exists fs dest_dir then
                 (if realpath fs dest_dir \<noteq> realpath fs source_dir
                  then Next (s1\<lparr>files_that_collide := files_that_collide s1 @ [dest_dir]\<rparr>)
                  else Next (l_out (Linked source_dir dest_dir) s1))
               else
                 (let s2 = l_out (Symlinking dest_dir) s1 in
                  case os_symlink source_dir dest_dir fs of
                    Inl e \<Rightarrow> Raise (OSError e) (l_err (Could_not_create_symlink dest_dir source_dir) s2)
                  | Inr fs' \<Rightarrow> Next (l_set_fs fs' s2)))
            else if \<not> path_exists fs dest_dir then
              (case os_mkdir dest_dir fs of
                 Inl e \<Rightarrow> Raise (OSError e) s
               | Inr fs' \<Rightarrow> Next (l_set_fs fs' s))
            else if \<not> isdir fs dest_dir then
              Return (- 1) (l_err (Cannot_create_directory dest_dir) s)
            else Next s))"

text \<open>
  The body of \<^verbatim>\<open>for filename in files\<close>. The hash function \<^verbatim>\<open>md5\<close> of the standard
  library is a parameter. Reading a file that cannot be opened raises.
\<close>

definition link_file ::
  "(string \<Rightarrow> string) \<Rightarrow> path list \<Rightarrow> path \<Rightarrow> path \<Rightarrow> path \<Rightarrow> link_state \<Rightarrow> string
     \<Rightarrow> link_state flow" where
  "link_file md5 skiplist source_devel_path source_path dest_path s filename =
     (if should_skip_file skiplist source_devel_path source_path filename then Next s
      else
        (let source_file = path_join source_path [filename];
             dest_file = path_join dest_path [filename];
             fs = w_fs (l_world s);
             s1 = s\<lparr>products := products s @ [(source_file, dest_file)]\<rparr>
         in if path_exists fs dest_file then
              (if realpath fs dest_file \<noteq> realpath fs source_file then
                 (case read_file fs (realpath fs source_file) of
                    Inl e \<Rightarrow> Raise (OSError e) s1
                  | Inr source_bytes \<Rightarrow>
                      (case read_file fs (realpath fs dest_file) of
                         Inl e \<Rightarrow> Raise (OSError e) s1
                       | Inr dest_bytes \<Rightarrow>
                           (let source_hash = md5 source_bytes;
                                dest_hash = md5 dest_bytes;
                                s2 = (if dest_hash \<noteq> source_hash
                                      then l_err (Dest_hash dest_hash)
                                             (l_err (Source_hash source_hash)
                                               (l_err (Cannot_symlink_to_existing source_file dest_file) s1))
                                      else s1)
                            in Next (s2\<lparr>files_that_collide := files_that_collide s2 @ [dest_file]\<rparr>))))
               else Next (l_out (Linked source_file dest_file) s1))
            else
              (let s2 = l_out (Symlinking dest_file) s1 in
               case os_symlink source_file dest_file fs of
                 Inl e \<Rightarrow> Raise (OSError e) (l_err (Could_not_create_symlink dest_file source_file) s2)
               | Inr fs' \<Rightarrow> Next (l_set_fs fs' s2))))"

text \<open>
  One entry \<^verbatim>\<open>(source_path, dirs, files)\<close> of \<^verbatim>\<open>os.walk(source_devel_path)\<close>:
  the directories first, then the files. The walk itself is the standard library's; its
  entries are a parameter of \<open>link_devel_products\<close>.
\<close>

type_synonym walk_entry = "path \<times> string list \<times> string list"

definition link_entry ::
  "(string \<Rightarrow> string) \<Rightarrow> path list \<Rightarrow> path \<Rightarrow> path \<Rightarrow> link_state \<Rightarrow> walk_entry
     \<Rightarrow> link_state flow" where
  "link_entry md5 skiplist source_devel_path dest_devel_path s entry =
     (let source_path = fst entry; dirs = fst (snd entry); files = snd (snd entry);
          dest_path = path_join dest_devel_path (relpath source_path source_devel_path)
      in case for_each (link_dir source_path dest_path) s dirs of
           Next s1 \<Rightarrow>
             for_each (link_file md5 skiplist source_devel_path source_path dest_path) s1 files
         | Return c s1 \<Rightarrow> Return c s1
         | Raise e s1 \<Rightarrow> Raise e s1)"

text \<open>
  The rows of the previous manifest that are no longer products: each is logged and its
  destination scheduled for cleaning.
\<close>

fun old_products_to_clean ::
  "(path \<times> path) list \<Rightarrow> (path \<times> path) list \<Rightarrow> world \<times> path list \<Rightarrow> world \<times> path list" where
  "old_products_to_clean prods [] s = s"
| "old_products_to_clean prods ((source_file, dest_file) # rows) s =
     old_products_to_clean prods rows
       (if (source_file, dest_file) \<notin> set prods
        then (logger_out (Cleaning source_file dest_file) (fst s), snd s @ [dest_file])
        else s)"

definition link_devel_products ::
  "(string \<Rightarrow> string) \<Rightarrow> walk_entry list \<Rightarrow> string \<Rightarrow> path \<Rightarrow> path \<Rightarrow> path \<Rightarrow> path \<Rightarrow> bool
     \<Rightarrow> world \<Rightarrow> int result \<times> world" where
  "link_devel_products md5 walk package_path devel_manifest_path source_devel_path
       dest_devel_path metadata_path prebuild w =
     (let devel_manifest_file_path = path_join devel_manifest_path [DEVEL_MANIFEST_FILENAME];
          skiplist = select_skiplist prebuild;
          s0 = \<lparr>l_world = w, products = [], files_that_collide = []\<rparr>
      in case for_each (link_entry md5 skiplist source_devel_path dest_devel_path) s0 walk of
           Return c s \<Rightarrow> (Returned c, l_world s)
         | Raise e s \<Rightarrow> (Raised e, l_world s)
         | Next s \<Rightarrow>
             (let old_rows = (case w_manifests (l_world s) devel_manifest_file_path of
                                None \<Rightarrow> []
                              | Some devel_manifest \<Rightarrow> snd devel_manifest);
                  cl = old_products_to_clean (products s) old_rows (l_world s, [])
              in case clean_linked_files metadata_path (files_that_collide s) (snd cl) False (fst cl) of
                   (Raised e, w2) \<Rightarrow> (Raised e, logger_err Could_not_clean_linked_files w2)
                 | (Returned u, w2) \<Rightarrow>
                     (Returned 0,
                      w2\<lparr>w_manifests := (w_manifests w2)
                            (devel_manifest_file_path \<mapsto> (package_path, products s))\<rparr>)))"

section \<open>Stages and jobs\<close>

text \<open>
  The classes \<^verbatim>\<open>CommandStage\<close>, \<^verbatim>\<open>FunctionStage\<close> and \<^verbatim>\<open>Job\<close> live in
  \<^verbatim>\<open>catkin_tools.execution\<close>, which is not among the sources. A stage is the record of
  the arguments its constructor is given; a keyword argument of a function stage is kept by
  name.
\<close>

datatype callable =
  Loadenv | Rmfiles | Unlink_devel_products_fn

datatype logger_factory =
  Default_factory
  | CMakeIO_factory path bool
  | CMakeMakeRunTestsIO_factory bool
  | CatkinTestResultsIO_factory

datatype kwarg =
  K_path path
  | K_paths "path list"
  | K_sorted "path list"
  | K_bool bool
  | K_package string
  | K_job_env
  | K_ctx

record command_stage =
  c_label :: string
  c_cmd :: "string list"
  c_cwd :: path
  c_logger_factory :: logger_factory
  c_occupy_job :: bool
  c_locked_resource :: "string option"
  c_early_termination_retcode :: "int option"
  c_success_retcodes :: "int list"

record function_stage =
  f_label :: string
  f_function :: callable
  f_locked_resource :: "string option"
  f_kwargs :: "(string \<times> kwarg) list"

datatype stage = Command command_stage | Function function_stage

record job =
  jid :: string
  deps :: "string list"
  env :: "(string \<times> string) list"
  stages :: "stage list"

text \<open>
  Modelled from the spec: the defaults of the \<^verbatim>\<open>CommandStage\<close> constructor, whose class
  is missing from the sources: the set of success exit codes is \<open>{0}\<close> and there is no
  early-termination exit code, no locked resource and no logger of its own.
\<close>

definition CommandStage :: "string \<Rightarrow> string list \<Rightarrow> path \<Rightarrow> command_stage" where
  "CommandStage label cmd cwd =
     \<lparr>c_label = label, c_cmd = cmd, c_cwd = cwd, c_logger_factory = Default_factory,
      c_occupy_job = False, c_locked_resource = None,
      c_early_termination_retcode = None, c_success_retcodes = [0]\<rparr>"

definition FunctionStage ::
  "string \<Rightarrow> callable \<Rightarrow> string option \<Rightarrow> (string \<times> kwarg) list \<Rightarrow> function_stage" where
  "FunctionStage label f locked kwargs =
     \<lparr>f_label = label, f_function = f, f_locked_resource = locked, f_kwargs = kwargs\<rparr>"

definition stage_label :: "stage \<Rightarrow> string" where
  "stage_label st = (case st of Command c \<Rightarrow> c_label c | Function f \<Rightarrow> f_label f)"

text \<open>
  The workspace context, as far as the clean and test factories read it. The paths of a
  package's spaces are functions of the package's name.
\<close>

record ctx =
  ctx_source_space_abs :: path
  ctx_devel_space_abs :: path
  ctx_install_space_abs :: path
  ctx_metadata_path :: path
  ctx_merge_install :: bool
  ctx_merge_devel :: bool
  ctx_link_devel :: bool
  ctx_isolate_devel :: bool
  ctx_make_args :: "string list"
  ctx_package_build_space :: "string \<Rightarrow> path"
  ctx_package_devel_space :: "string \<Rightarrow> path"
  ctx_package_install_space :: "string \<Rightarrow> path"
  ctx_package_metadata_path :: "string \<Rightarrow> path"
  ctx_package_private_devel_path :: "string \<Rightarrow> path"

section \<open>create_catkin_clean_job\<close>

text \<open>
  \<^verbatim>\<open>MAKE_EXEC\<close>, \<^verbatim>\<open>get_installed_files\<close> and \<^verbatim>\<open>get_python_install_dir\<close> come from
  modules that are not among the sources: the path of make, the installed files of the
  package and the Python install directory are parameters. The file system answers
  \<^verbatim>\<open>os.path.exists(python_dir)\<close>.
\<close>

definition clean_install_stages ::
  "path list \<Rightarrow> path \<Rightarrow> filesystem \<Rightarrow> ctx \<Rightarrow> string \<Rightarrow> bool \<Rightarrow> stage list" where
  "clean_install_stages installed python_install_dir fs cx package dry_run =
     (let install_dir = ctx_package_install_space cx package;
          installed_files =
            (if ctx_merge_install cx
             then filter (\<lambda>p. butlast p \<noteq> install_dir) installed
             else installed);
          python_dir = path_join (path_join install_dir python_install_dir) [package];
          installed_files2 =
            (if path_exists fs python_dir then installed_files @ [python_dir]
             else installed_files)
      in [Function (FunctionStage ''cleaninstall'' Rmfiles None
            [(''paths'', K_sorted installed_files2),
             (''remove_empty'', K_bool True),
             (''empty_root'', K_path (ctx_install_space_abs cx)),
             (''dry_run'', K_bool dry_run)])])"

definition clean_devel_stages :: "string \<Rightarrow> ctx \<Rightarrow> string \<Rightarrow> bool \<Rightarrow> stage list" where
  "clean_devel_stages make_exec cx package dry_run =
     (if ctx_merge_devel cx then
        [Command (CommandStage ''clean'' [make_exec, ''clean''] (ctx_package_build_space cx package))]
      else if ctx_link_devel cx then
        [Function (FunctionStage ''unlink'' Unlink_devel_products_fn (Some ''symlink-collisions-file'')
           [(''devel_space_abs'', K_path (ctx_devel_space_abs cx)),
            (''private_devel_path'', K_path (ctx_package_private_devel_path cx package)),
            (''metadata_path'', K_path (ctx_metadata_path cx)),
            (''package_metadata_path'', K_path (ctx_package_metadata_path cx package)),
            (''dry_run'', K_bool dry_run)]),
         Function (FunctionStage ''rmdevel'' Rmfiles None
           [(''paths'', K_paths [ctx_package_private_devel_path cx package]),
            (''dry_run'', K_bool dry_run)])]
      else if ctx_isolate_devel cx then
        [Function (FunctionStage ''rmdevel'' Rmfiles None
           [(''paths'', K_paths [ctx_package_devel_space cx package]),
            (''dry_run'', K_bool dry_run)])]
      else [])"

definition create_catkin_clean_job ::
  "string \<Rightarrow> path list \<Rightarrow> path \<Rightarrow> filesystem \<Rightarrow> ctx \<Rightarrow> string \<Rightarrow> path \<Rightarrow> string list
     \<Rightarrow> bool \<Rightarrow> bool \<Rightarrow> bool \<Rightarrow> bool \<Rightarrow> job" where
  "create_catkin_clean_job make_exec installed python_install_dir fs cx package package_path
       dependencies dry_run clean_build clean_devel clean_install =
     (let build_space = ctx_package_build_space cx package;
          metadata_path = ctx_package_metadata_path cx package;
          stages1 = (if clean_install
                     then clean_install_stages installed python_install_dir fs cx package dry_run
                     else []);
          stages2 = stages1 @
                    (if clean_devel then clean_devel_stages make_exec cx package dry_run else []);
          stages3 = stages2 @
                    (if clean_build
                     then [Function (FunctionStage ''rmbuild'' Rmfiles None
                             [(''paths'', K_paths [build_space]), (''dry_run'', K_bool dry_run)])]
                     else []);
          stages4 = stages3 @
                    (if clean_build \<and> clean_devel \<and> clean_install
                     then [Function (FunctionStage ''rmmetadata'' Rmfiles None
                             [(''paths'', K_paths [metadata_path]), (''dry_run'', K_bool dry_run)])]
                     else [])
      in \<lparr>jid = package, deps = dependencies, env = [], stages = stages4\<rparr>)"

section \<open>create_catkin_test_job\<close>

definition create_catkin_test_job ::
  "string \<Rightarrow> (string \<times> string) list \<Rightarrow> ctx \<Rightarrow> string \<Rightarrow> path \<Rightarrow> string \<Rightarrow> bool \<Rightarrow> job" where
  "create_catkin_test_job make_exec os_environ cx package package_path test_target verbose =
     (let pkg_dir = path_join (ctx_source_space_abs cx) package_path;
          build_space = ctx_package_build_space cx package;
          job_env = os_environ
      in \<lparr>jid = package, deps = [], env = job_env,
          stages =
            [Function (FunctionStage ''loadenv'' Loadenv None
               [(''job_env'', K_job_env), (''package'', K_package package),
                (''context'', K_ctx), (''verbose'', K_bool False)]),
             Command ((CommandStage ''check'' [make_exec, ''cmake_check_build_system''] build_space)
               \<lparr>c_logger_factory := CMakeIO_factory pkg_dir (\<not> verbose), c_occupy_job := True\<rparr>),
             Command ((CommandStage ''findtest'' [make_exec, ''-q'', test_target] build_space)
               \<lparr>c_early_termination_retcode := Some 2, c_success_retcodes := [0, 1, 2]\<rparr>),
             Command ((CommandStage ''make'' ([make_exec, test_target] @ ctx_make_args cx) build_space)
               \<lparr>c_logger_factory := CMakeMakeRunTestsIO_factory verbose\<rparr>),
             Command ((CommandStage ''results''
                        ([''catkin_test_results''] @ (if verbose then [''--verbose''] else []))
                        build_space)
               \<lparr>c_logger_factory := CatkinTestResultsIO_factory\<rparr>)]\<rparr>)"

section \<open>Executing the stages of a job\<close>

datatype stage_result = Continue | EarlyStop | Fail int | Fatal

datatype job_status = Succeeded | Failed int | Aborted

text \<open>
  Modelled from the spec: the classification of a command stage's exit code, done by the
  executor of \<^verbatim>\<open>catkin_tools.execution\<close>, which is missing from the sources. A code in
  the success set that is not the early-termination code continues; the early-termination
  code stops the job early; a code outside the success set fails.
\<close>

definition classify_retcode :: "command_stage \<Rightarrow> int \<Rightarrow> stage_result" where
  "classify_retcode st code =
     (if code \<in> set (c_success_retcodes st) \<and> c_early_termination_retcode st \<noteq> Some code
      then Continue
      else if c_early_termination_retcode st = Some code then EarlyStop
      else Fail code)"

text \<open>
  Modelled from the spec: the sequential execution of a job's stages, also missing from
  the sources. \<open>spawn\<close> gives the exit code of a command stage, \<open>call\<close> the result of a
  function stage. The stages run in order; the job ends at the first stage that fails or
  stops early, and an early stop reports the job successful. The result is the labels of
  the stages that ran and the job's status.
\<close>

definition run_stage :: "(command_stage \<Rightarrow> int) \<Rightarrow> (function_stage \<Rightarrow> stage_result) \<Rightarrow> stage
     \<Rightarrow> stage_result" where
  "run_stage spawn call st =
     (case st of Command c \<Rightarrow> classify_retcode c (spawn c) | Function f \<Rightarrow> call f)"

fun run_stages :: "(command_stage \<Rightarrow> int) \<Rightarrow> (function_stage \<Rightarrow> stage_result) \<Rightarrow> stage list
     \<Rightarrow> string list \<times> job_status" where
  "run_stages spawn call [] = ([], Succeeded)"
| "run_stages spawn call (st # rest) =
     (case run_stage spawn call st of
        Continue \<Rightarrow> (let r = run_stages spawn call rest in (stage_label st # fst r, snd r))
      | EarlyStop \<Rightarrow> ([stage_label st], Succeeded)
      | Fail code \<Rightarrow> ([stage_label st], Failed code)
      | Fatal \<Rightarrow> ([stage_label st], Aborted))"

definition run_job :: "(command_stage \<Rightarrow> int) \<Rightarrow> (function_stage \<Rightarrow> stage_result) \<Rightarrow> job
     \<Rightarrow> string list \<times> job_status" where
  "run_job spawn call j = run_stages spawn call (stages j)"

section \<open>The metadata store\<close>

text \<open>
  Python values as far as \<^verbatim>\<open>metadata.py\<close> passes them around. The metadata directory is
  a tree of the same kind as the devel spaces. A path string is split at its separators;
  a relative path is taken from the root, and a trailing separator is dropped.
  \<^verbatim>\<open>os.path.exists\<close> of the empty string is false.
\<close>

datatype pyval = PNone | PStr string | PInt int | PDict "(string \<times> pyval) list"

definition METADATA_DIR_NAME :: string where
  "METADATA_DIR_NAME = ''.catkin_tools''"

definition PROFILES_YML_FILE_NAME :: string where
  "PROFILES_YML_FILE_NAME = ''profiles.yaml''"

definition DEFAULT_PROFILE_NAME :: string where
  "DEFAULT_PROFILE_NAME = ''default''"

definition truthy :: "pyval \<Rightarrow> bool" where
  "truthy v = (case v of PNone \<Rightarrow> False | PStr s \<Rightarrow> s \<noteq> [] | PInt i \<Rightarrow> i \<noteq> 0 | PDict kv \<Rightarrow> kv \<noteq> [])"

fun split_path_from :: "string \<Rightarrow> string \<Rightarrow> path" where
  "split_path_from piece [] = (if piece = [] then [] else [piece])"
| "split_path_from piece (c # cs) =
     (if c = CHR ''/'' then
        (if piece = [] then split_path_from [] cs else piece # split_path_from [] cs)
      else split_path_from (piece @ [c]) cs)"

definition split_path :: "string \<Rightarrow> path" where
  "split_path s = split_path_from [] s"

definition str_exists :: "filesystem \<Rightarrow> string \<Rightarrow> bool" where
  "str_exists fs s = (s \<noteq> [] \<and> path_exists fs (split_path s))"

definition str_read :: "filesystem \<Rightarrow> string \<Rightarrow> os_error + string" where
  "str_read fs s = (if s = [] then Inl FileNotFoundError else read_file fs (split_path s))"

text \<open>
  \<^verbatim>\<open>open(p, 'w')\<close> and \<^verbatim>\<open>write\<close>: the file is created in its directory or is given the
  new contents; a symbolic link is followed to the file it names.
\<close>

fun write_file_at :: "nat \<Rightarrow> path \<Rightarrow> string \<Rightarrow> filesystem \<Rightarrow> os_error + filesystem" where
  "write_file_at n p written fs =
     (case locate fs p of
        Inl e \<Rightarrow> Inl e
      | Inr q \<Rightarrow>
          (case lookup fs q of
             Some Dir \<Rightarrow> Inl IsADirectoryError
           | Some (Link t) \<Rightarrow>
               (case n of 0 \<Rightarrow> Inl TooManyLinks | Suc m \<Rightarrow> write_file_at m t written fs)
           | _ \<Rightarrow> Inr (AList.update q (File written) fs)))"

definition str_write :: "string \<Rightarrow> string \<Rightarrow> filesystem \<Rightarrow> os_error + filesystem" where
  "str_write s written fs =
     (if s = [] then Inl FileNotFoundError
      else write_file_at SYMLOOP_MAX (split_path s) written fs)"

text \<open>
  \<^verbatim>\<open>os.path.join\<close> of two values: a value that is not a string raises \<^verbatim>\<open>TypeError\<close>;
  an absolute second path replaces the first, and no separator is added after an empty
  first path or one that ends in a separator.
\<close>

definition join_str :: "string \<Rightarrow> string \<Rightarrow> string" where
  "join_str a b =
     (if b \<noteq> [] \<and> hd b = CHR ''/'' then b
      else if a = [] \<or> last a = CHR ''/'' then a @ b
      else a @ ''/'' @ b)"

definition os_path_join :: "pyval \<Rightarrow> pyval \<Rightarrow> pyval result" where
  "os_path_join a b =
     (case (a, b) of
        (PStr x, PStr y) \<Rightarrow> Returned (PStr (join_str x y))
      | _ \<Rightarrow> Raised TypeError)"

definition get_metadata_root_path :: "pyval \<Rightarrow> pyval result" where
  "get_metadata_root_path workspace_path =
     (if workspace_path = PNone then Returned PNone
      else os_path_join workspace_path (PStr METADATA_DIR_NAME))"

definition get_profiles_path :: "pyval \<Rightarrow> pyval result" where
  "get_profiles_path workspace_path =
     (if workspace_path = PNone then Returned PNone
      else (case os_path_join workspace_path (PStr METADATA_DIR_NAME) of
              Raised e \<Rightarrow> Raised e
            | Returned root \<Rightarrow> os_path_join root (PStr ''profiles'')))"

text \<open>
  \<^verbatim>\<open>'%s.yaml' % verb\<close>: the string itself, or what \<^verbatim>\<open>str\<close> gives for another value (a
  string inside a dictionary is shown between single quotes, without escapes).
\<close>

fun show_nat :: "nat \<Rightarrow> string" where
  "show_nat n =
     (if n < 10 then [''0123456789'' ! n]
      else show_nat (n div 10) @ [''0123456789'' ! (n mod 10)])"

definition show_int :: "int \<Rightarrow> string" where
  "show_int i = (if i < 0 then ''-'' @ show_nat (nat (- i)) else show_nat (nat i))"

fun py_repr :: "pyval \<Rightarrow> string" and py_repr_items :: "(string \<times> pyval) list \<Rightarrow> string" where
  "py_repr PNone = ''None''"
| "py_repr (PStr s) = [CHR 0x27] @ s @ [CHR 0x27]"
| "py_repr (PInt i) = show_int i"
| "py_repr (PDict kv) = ''{'' @ py_repr_items kv @ ''}''"
| "py_repr_items [] = []"
| "py_repr_items ((k, v) # kvs) =
     [CHR 0x27] @ k @ [CHR 0x27] @ '': '' @ py_repr v
       @ (if kvs = [] then [] else '', '' @ py_repr_items kvs)"

definition py_str :: "pyval \<Rightarrow> string" where
  "py_str v = (case v of PStr s \<Rightarrow> s | _ \<Rightarrow> py_repr v)"

definition format_yaml_name :: "pyval \<Rightarrow> string" where
  "format_yaml_name verb = py_str verb @ ''.yaml''"

definition get_paths :: "pyval \<Rightarrow> pyval \<Rightarrow> pyval \<Rightarrow> (pyval \<times> pyval) result" where
  "get_paths workspace_path profile_name verb =
     (case get_profiles_path workspace_path of
        Raised e \<Rightarrow> Raised e
      | Returned profiles_path \<Rightarrow>
          (if truthy profile_name then
             (case os_path_join profiles_path profile_name of
                Raised e \<Rightarrow> Raised e
              | Returned metadata_path \<Rightarrow>
                  (if truthy verb then
                     (case os_path_join metadata_path (PStr (format_yaml_name verb)) of
                        Raised e \<Rightarrow> Raised e
                      | Returned metadata_file_path \<Rightarrow> Returned (metadata_path, metadata_file_path))
                   else Returned (metadata_path, PNone)))
           else Returned (PNone, PNone)))"

text \<open>
  What the functions below take from outside the repository's sources: the version of
  the installed \<^verbatim>\<open>catkin_tools\<close> (\<^verbatim>\<open>pkg_resources\<close>), the parser \<^verbatim>\<open>yaml.safe_load\<close> on
  a text that is not empty, and what \<^verbatim>\<open>migrate_metadata_version\<close> does to the tree
  through \<^verbatim>\<open>os.listdir\<close>, \<^verbatim>\<open>shutil.move\<close> and \<^verbatim>\<open>yaml.dump\<close>, given the workspace path
  and the version found.
\<close>

record library =
  current_version :: string
  yaml_safe_load :: "string \<Rightarrow> pyval result"
  migrate_metadata_version :: "pyval \<Rightarrow> pyval \<Rightarrow> filesystem \<Rightarrow> unit result \<times> filesystem"

definition safe_load :: "library \<Rightarrow> string \<Rightarrow> pyval result" where
  "safe_load lib c = (if c = [] then Returned PNone else yaml_safe_load lib c)"

text \<open>
  \<^verbatim>\<open>migrate_metadata\<close>: nothing is done without a metadata directory; otherwise the
  \<^verbatim>\<open>VERSION\<close> file is read, and when it is missing, empty or of another version, the
  current version is written to it and the metadata are migrated from the version found.
\<close>

definition read_last_version :: "filesystem \<Rightarrow> string \<Rightarrow> pyval result" where
  "read_last_version fs version_file_path =
     (if str_exists fs version_file_path then
        (case str_read fs version_file_path of
           Inl e \<Rightarrow> Raised (OSError e)
         | Inr c \<Rightarrow> Returned (if c = [] then PNone else PStr c))
      else Returned PNone)"

definition migrate_metadata :: "library \<Rightarrow> pyval \<Rightarrow> filesystem \<Rightarrow> unit result \<times> filesystem" where
  "migrate_metadata lib workspace_path fs =
     (case get_metadata_root_path workspace_path of
        Raised e \<Rightarrow> (Raised e, fs)
      | Returned metadata_root_path \<Rightarrow>
          (if \<not> truthy metadata_root_path then (Returned (), fs)
           else
             (case metadata_root_path of
                PStr root \<Rightarrow>
                  (if \<not> str_exists fs root then (Returned (), fs)
                   else
                     (let version_file_path = join_str root ''VERSION'' in
                      case read_last_version fs version_file_path of
                        Raised e \<Rightarrow> (Raised e, fs)
                      | Returned last_version \<Rightarrow>
                          (if last_version \<noteq> PStr (current_version lib) then
                             (case str_write version_file_path (current_version lib) fs of
                                Inl e \<Rightarrow> (Raised (OSError e), fs)
                              | Inr fs1 \<Rightarrow>
                                  migrate_metadata_version lib workspace_path last_version fs1)
                           else (Returned (), fs))))
              | other \<Rightarrow> (Raised TypeError, fs))))"

definition get_profiles_data :: "library \<Rightarrow> pyval \<Rightarrow> filesystem \<Rightarrow> pyval result \<times> filesystem" where
  "get_profiles_data lib workspace_path fs =
     (case migrate_metadata lib workspace_path fs of
        (Raised e, fs1) \<Rightarrow> (Raised e, fs1)
      | (Returned u, fs1) \<Rightarrow>
          (if workspace_path \<noteq> PNone then
             (case get_profiles_path workspace_path of
                Raised e \<Rightarrow> (Raised e, fs1)
              | Returned profiles_path \<Rightarrow>
                  (case os_path_join profiles_path (PStr PROFILES_YML_FILE_NAME) of
                     Raised e \<Rightarrow> (Raised e, fs1)
                   | Returned (PStr profiles_yaml_file_path) \<Rightarrow>
                       (if str_exists fs1 profiles_yaml_file_path then
                          (case str_read fs1 profiles_yaml_file_path of
                             Inl e \<Rightarrow> (Raised (OSError e), fs1)
                           | Inr c \<Rightarrow> (safe_load lib c, fs1))
                        else (Returned (PDict []), fs1))
                   | Returned other \<Rightarrow> (Raised TypeError, fs1)))
           else (Returned (PDict []), fs1)))"

text \<open>
  \<^verbatim>\<open>'active' in profiles_data\<close> and \<^verbatim>\<open>profiles_data['active']\<close>: a key of a dictionary;
  on a string the test is for a substring and the subscript raises; on any other value
  the test raises.
\<close>

fun is_substring :: "string \<Rightarrow> string \<Rightarrow> bool" where
  "is_substring xs [] = (xs = [])"
| "is_substring xs (y # ys) = (take (length xs) (y # ys) = xs \<or> is_substring xs ys)"

definition get_active_profile :: "library \<Rightarrow> pyval \<Rightarrow> filesystem \<Rightarrow> pyval result \<times> filesystem" where
  "get_active_profile lib workspace_path fs =
     (case get_profiles_data lib workspace_path fs of
        (Raised e, fs1) \<Rightarrow> (Raised e, fs1)
      | (Returned profiles_data, fs1) \<Rightarrow>
          (case profiles_data of
             PDict kv \<Rightarrow>
               (case map_of kv ''active'' of
                  Some v \<Rightarrow> (Returned v, fs1)
                | None \<Rightarrow> (Returned (PStr DEFAULT_PROFILE_NAME), fs1))
           | PStr s \<Rightarrow>
               (if is_substring ''active'' s then (Raised TypeError, fs1)
                else (Returned (PStr DEFAULT_PROFILE_NAME), fs1))
           | _ \<Rightarrow> (Raised TypeError, fs1)))"

text \<open>
  \<^verbatim>\<open>get_metadata\<close>: an empty dictionary when the file of the verb does not exist or is
  empty, the parsed document otherwise; \<^verbatim>\<open>os.path.exists\<close> of \<^verbatim>\<open>None\<close> raises
  \<^verbatim>\<open>TypeError\<close>.
\<close>

definition get_metadata ::
  "library \<Rightarrow> pyval \<Rightarrow> pyval \<Rightarrow> pyval \<Rightarrow> filesystem \<Rightarrow> pyval result \<times> filesystem" where
  "get_metadata lib workspace_path profile verb fs =
     (case migrate_metadata lib workspace_path fs of
        (Raised e, fs1) \<Rightarrow> (Raised e, fs1)
      | (Returned u, fs1) \<Rightarrow>
          (case get_paths workspace_path profile verb of
             Raised e \<Rightarrow> (Raised e, fs1)
           | Returned (metadata_path, PStr metadata_file_path) \<Rightarrow>
               (if \<not> str_exists fs1 metadata_file_path
                   \<or> str_read fs1 metadata_file_path = Inr [] then (Returned (PDict []), fs1)
                else
                  (case str_read fs1 metadata_file_path of
                     Inl e \<Rightarrow> (Raised (OSError e), fs1)
                   | Inr c \<Rightarrow> (safe_load lib c, fs1)))
           | Returned (metadata_path, other) \<Rightarrow> (Raised TypeError, fs1)))"

text \<open>
  \<^verbatim>\<open>get_active_metadata\<close> has no \<^verbatim>\<open>return\<close> statement: when its two calls return, the
  function returns \<^verbatim>\<open>None\<close>.
\<close>

definition get_active_metadata ::
  "library \<Rightarrow> pyval \<Rightarrow> pyval \<Rightarrow> filesystem \<Rightarrow> pyval result \<times> filesystem" where
  "get_active_metadata lib workspace_path verb fs =
     (case get_active_profile lib workspace_path fs of
        (Raised e, fs1) \<Rightarrow> (Raised e, fs1)
      | (Returned active_profile, fs1) \<Rightarrow>
          (case get_metadata lib workspace_path active_profile verb fs1 of
             (Raised e, fs2) \<Rightarrow> (Raised e, fs2)
           | (Returned metadata, fs2) \<Rightarrow> (Returned PNone, fs2)))"

text \<open>
  A call of \<^verbatim>\<open>update_active_metadata(workspace_path, verb, new_data={})\<close> with
  positional arguments: two or three arguments bind to the parameters, any other number
  raises \<^verbatim>\<open>TypeError\<close> before the body runs.
\<close>

definition bind_parameters :: "pyval list \<Rightarrow> (pyval \<times> pyval \<times> pyval) option" where
  "bind_parameters args =
     (case args of
        [workspace_path, verb] \<Rightarrow> Some (workspace_path, verb, PDict [])
      | [workspace_path, verb, new_data] \<Rightarrow> Some (workspace_path, verb, new_data)
      | _ \<Rightarrow> None)"

function update_active_metadata ::
  "library \<Rightarrow> pyval list \<Rightarrow> filesystem \<Rightarrow> pyval result \<times> filesystem" where
  "update_active_metadata lib args fs =
     (case bind_parameters args of
        None \<Rightarrow> (Raised TypeError, fs)
      | Some (workspace_path, verb, new_data) \<Rightarrow>
          (case get_active_profile lib workspace_path fs of
             (Raised e, fs1) \<Rightarrow> (Raised e, fs1)
           | (Returned active_profile, fs1) \<Rightarrow>
               update_active_metadata lib [workspace_path, active_profile, verb, new_data] fs1))"
  by pat_completeness auto
termination
  by (relation "measure (\<lambda>(lib, args, fs). if length args \<le> 3 then 1 else 0)")
     (auto simp: bind_parameters_def split: list.splits)

section \<open>Notions used in the proofs\<close>

text \<open>
  The state a loop ends in, whichever way it ends; a file system that keeps every node
  of another.
\<close>

fun flow_state :: "'a flow \<Rightarrow> 'a" where
  "flow_state (Next s) = s"
| "flow_state (Return c s) = s"
| "flow_state (Raise e s) = s"

definition extends_fs :: "filesystem \<Rightarrow> filesystem \<Rightarrow> bool" where
  "extends_fs fs fs' = (\<forall>p. lookup fs p \<noteq> None \<longrightarrow> lookup fs' p = lookup fs p)"

text \<open>
  A node that is a directory or a file, not a symbolic link; and the metadata of a
  workspace being up to date: there is no metadata directory, or its \<^verbatim>\<open>VERSION\<close> file
  holds the current version.
\<close>

definition real_node :: "filesystem \<Rightarrow> path \<Rightarrow> bool" where
  "real_node fs q = (case lookup fs q of Some Dir \<Rightarrow> True | Some (File c) \<Rightarrow> True | _ \<Rightarrow> False)"

definition metadata_up_to_date :: "library \<Rightarrow> pyval \<Rightarrow> filesystem \<Rightarrow> bool" where
  "metadata_up_to_date lib workspace_path fs =
     (case get_metadata_root_path workspace_path of
        Returned (PStr root) \<Rightarrow>
          \<not> str_exists fs root
          \<or> read_last_version fs (join_str root ''VERSION'') = Returned (PStr (current_version lib))
      | Returned other \<Rightarrow> other = PNone
      | Raised e \<Rightarrow> False)"



section \<open>Example inputs\<close>

definition example_ctx :: ctx where
  "example_ctx =
     \<lparr>ctx_source_space_abs = [''ws'', ''src''], ctx_devel_space_abs = [''ws'', ''devel''],
      ctx_install_space_abs = [''ws'', ''install''], ctx_metadata_path = [''ws'', ''meta''],
      ctx_merge_install = False, ctx_merge_devel = False, ctx_link_devel = True,
      ctx_isolate_devel = False, ctx_make_args = [],
      ctx_package_build_space = (\<lambda>p. [''ws'', ''build'', p]),
      ctx_package_devel_space = (\<lambda>p. [''ws'', ''devel'', ''.private'', p]),
      ctx_package_install_space = (\<lambda>p. [''ws'', ''install'']),
      ctx_package_metadata_path = (\<lambda>p. [''ws'', ''meta'', ''packages'', p]),
      ctx_package_private_devel_path = (\<lambda>p. [''ws'', ''devel'', ''.private'', p])\<rparr>"

definition example_test_job :: job where
  "example_test_job =
     create_catkin_test_job ''make'' [] example_ctx ''pkg'' [''pkg''] ''run_tests'' False"

text \<open>An executor in which every stage succeeds with exit code 0, but for the probe.\<close>

definition probe_exits_with :: "int \<Rightarrow> command_stage \<Rightarrow> int" where
  "probe_exits_with code c = (if c_label c = ''findtest'' then code else 0)"

definition call_continues :: "function_stage \<Rightarrow> stage_result" where
  "call_continues f = Continue"
text \<open>
  A library for the examples: version \<^verbatim>\<open>0.9.0\<close> of \<^verbatim>\<open>catkin_tools\<close> is installed, the
  parser knows the document \<^verbatim>\<open>jobs: 4\<close> and refuses the text \<^verbatim>\<open>{\<close>, and the metadata
  directory has nothing that a migration would restructure.
\<close>

definition example_yaml :: "string \<Rightarrow> pyval result" where
  "example_yaml c =
     (if c = ''jobs: 4'' then Returned (PDict [(''jobs'', PInt 4)])
      else if c = ''{'' then Raised YAMLError
      else Returned (PStr c))"

definition nothing_to_migrate :: "pyval \<Rightarrow> pyval \<Rightarrow> filesystem \<Rightarrow> unit result \<times> filesystem" where
  "nothing_to_migrate workspace_path old_version fs = (Returned (), fs)"

definition example_lib :: library where
  "example_lib =
     \<lparr>current_version = ''0.9.0'', yaml_safe_load = example_yaml,
      migrate_metadata_version = nothing_to_migrate\<rparr>"

text \<open>
  The workspace \<^verbatim>\<open>/ws\<close> with metadata of the current version and the file
  \<^verbatim>\<open>build.yaml\<close> of the default profile; the same workspace with a \<^verbatim>\<open>profiles.yaml\<close>
  that cannot be parsed; and a workspace whose metadata directory is empty.
\<close>

definition example_store :: filesystem where
  "example_store =
     [([''ws''], Dir), ([''ws'', ''.catkin_tools''], Dir),
      ([''ws'', ''.catkin_tools'', ''VERSION''], File ''0.9.0''),
      ([''ws'', ''.catkin_tools'', ''profiles''], Dir),
      ([''ws'', ''.catkin_tools'', ''profiles'', ''default''], Dir),
      ([''ws'', ''.catkin_tools'', ''profiles'', ''default'', ''build.yaml''], File ''jobs: 4'')]"

definition example_broken_store :: filesystem where
  "example_broken_store =
     example_store @ [([''ws'', ''.catkin_tools'', ''profiles'', ''profiles.yaml''], File ''{'')]"

definition example_fresh_store :: filesystem where
  "example_fresh_store = [([''ws''], Dir), ([''ws'', ''.catkin_tools''], Dir)]"




section \<open>The skip policy of the merge\<close>

text \<open>
  C6, first half as stated, second half as the code has it. A file is skipped exactly
  when its path relative to the source tree is in the skip list, or a component of that
  path (the file's own name included) is a skipped directory name. The list for the
  prebuild package is a proper part of the list for ordinary packages: the ordinary
  list is the stricter one.
\<close>

theorem should_skip_file_policy:
  "should_skip_file skiplist source_devel_path source_path filename =
     (relpath (path_join source_path [filename]) source_devel_path \<in> set skiplist \<or>
      (\<exists>directory \<in> set (relpath (path_join source_path [filename]) source_devel_path).
         directory \<in> set DEVEL_LINK_SKIP_DIRECTORIES))
   \<and> set (select_skiplist True) \<subset> set (select_skiplist False)"
  by (auto simp: should_skip_file_def Let_def list_ex_iff select_skiplist_def
      DEVEL_LINK_SKIPLIST_def DEVEL_LINK_PREBUILD_SKIPLIST_def)

text \<open>
  C6 as stated fails: \<^verbatim>\<open>env.sh\<close> at the top of the source tree is skipped for an
  ordinary package and linked for the prebuild package, so the prebuild list is not a
  superset of the ordinary one.
\<close>

theorem prebuild_skiplist_not_stricter:
  "should_skip_file (select_skiplist False) [''s''] [''s''] ''env.sh'' \<and>
   \<not> should_skip_file (select_skiplist True) [''s''] [''s''] ''env.sh''"
  by code_simp

section \<open>The clean job\<close>

text \<open>
  C8. The stage that removes the package's metadata directory (\<^verbatim>\<open>rmmetadata\<close>, which
  calls \<^verbatim>\<open>rmfiles\<close> on the metadata path) is among the stages of the clean job exactly
  when build, devel and install were all requested; otherwise no stage of that name is
  in the job.
\<close>

theorem clean_job_rmmetadata_iff_all_scopes:
  "(Function (FunctionStage ''rmmetadata'' Rmfiles None
       [(''paths'', K_paths [ctx_package_metadata_path cx package]),
        (''dry_run'', K_bool dry_run)])
      \<in> set (stages (create_catkin_clean_job make_exec installed python_install_dir fs cx package
                 package_path dependencies dry_run clean_build clean_devel clean_install)))
     = (clean_build \<and> clean_devel \<and> clean_install)
   \<and> list_ex (\<lambda>st. stage_label st = ''rmmetadata'')
        (stages (create_catkin_clean_job make_exec installed python_install_dir fs cx package
                 package_path dependencies dry_run clean_build clean_devel clean_install))
     = (clean_build \<and> clean_devel \<and> clean_install)"
  by (auto simp: create_catkin_clean_job_def Let_def clean_install_stages_def
      clean_devel_stages_def stage_label_def FunctionStage_def CommandStage_def)

section \<open>The test job\<close>

text \<open>
  C7, as the code has it. The probe stage \<^verbatim>\<open>findtest\<close> is built with the
  early-termination code 2 and the success codes 0, 1 and 2. When the stages before it
  continue, exit code 2 of the probe ends the job after the probe and the job is
  successful; exit codes 0 and 1 let the job go on with the stages after the probe; any
  other exit code fails the job at the probe with that code.
\<close>

theorem test_job_probe_exit_codes:
  assumes "\<And>f. f_label f = ''loadenv'' \<Longrightarrow> call f = Continue"
    and "\<And>c. c_label c = ''check'' \<Longrightarrow> spawn c = 0"
    and "\<And>c. c_label c = ''findtest'' \<Longrightarrow> spawn c = code"
  shows "run_job spawn call
           (create_catkin_test_job make_exec os_environ cx package package_path test_target verbose)
         = (if code = 2 then ([''loadenv'', ''check'', ''findtest''], Succeeded)
            else if code = 0 \<or> code = 1 then
              (let r = run_stages spawn call
                         (drop 3 (stages (create_catkin_test_job make_exec os_environ cx package
                                            package_path test_target verbose)))
               in ([''loadenv'', ''check'', ''findtest''] @ fst r, snd r))
            else ([''loadenv'', ''check'', ''findtest''], Failed code))"
  using assms
  by (simp add: run_job_def create_catkin_test_job_def Let_def CommandStage_def
      classify_retcode_def run_stage_def stage_label_def FunctionStage_def)

theorem test_job_probe_exit_codes_witness:
  "run_job (probe_exits_with 2) call_continues example_test_job
     = ([''loadenv'', ''check'', ''findtest''], Succeeded)"
  using test_job_probe_exit_codes [of call_continues "probe_exits_with 2" 2
      "''make''" "[]" example_ctx "''pkg''" "[''pkg'']" "''run_tests''" False]
  by (simp add: probe_exits_with_def call_continues_def example_test_job_def)

text \<open>
  C7 as stated fails: with exit code 3 of the probe the job does not continue to the
  next stage, it fails at the probe.
\<close>

theorem test_job_probe_exit_code_3_fails:
  "run_job (probe_exits_with 3) call_continues example_test_job
     = ([''loadenv'', ''check'', ''findtest''], Failed 3)"
  by (simp add: run_job_def example_test_job_def create_catkin_test_job_def Let_def
      CommandStage_def classify_retcode_def run_stage_def stage_label_def FunctionStage_def
      probe_exits_with_def call_continues_def)

section \<open>The metadata of the active profile\<close>

lemma migrate_metadata_None: "migrate_metadata lib PNone fs = (Returned (), fs)"
  by (simp add: migrate_metadata_def get_metadata_root_path_def truthy_def)

lemma get_active_profile_None:
  "get_active_profile lib PNone fs = (Returned (PStr DEFAULT_PROFILE_NAME), fs)"
  by (simp add: get_active_profile_def get_profiles_data_def migrate_metadata_None)

lemma get_metadata_None:
  "get_metadata lib PNone (PStr DEFAULT_PROFILE_NAME) verb fs = (Raised TypeError, fs)"
  by (simp add: get_metadata_def migrate_metadata_None get_paths_def get_profiles_path_def
      truthy_def DEFAULT_PROFILE_NAME_def os_path_join_def)

lemma get_paths_falsy_verb:
  "\<not> truthy verb \<Longrightarrow>
   (case get_paths workspace_path profile verb of
      Raised e \<Rightarrow> e = TypeError
    | Returned (metadata_path, metadata_file_path) \<Rightarrow> metadata_file_path = PNone)"
  by (auto simp: get_paths_def get_profiles_path_def os_path_join_def
      split: result.splits pyval.splits if_splits)

lemma get_metadata_falsy_verb:
  assumes "\<not> truthy verb" "fst (migrate_metadata lib workspace_path fs) = Returned ()"
  shows "fst (get_metadata lib workspace_path profile verb fs) = Raised TypeError"
proof -
  obtain fs1 where m: "migrate_metadata lib workspace_path fs = (Returned (), fs1)"
    using assms(2) by (cases "migrate_metadata lib workspace_path fs") auto
  from get_paths_falsy_verb[OF assms(1), of workspace_path profile] show ?thesis
    by (auto simp: get_metadata_def m split: result.splits prod.splits pyval.splits)
qed

lemma migrate_metadata_store:
  "metadata_up_to_date lib workspace_path fs \<Longrightarrow> snd (migrate_metadata lib workspace_path fs) = fs"
  by (auto simp: metadata_up_to_date_def migrate_metadata_def Let_def
      split: result.splits pyval.splits if_splits sum.splits)

lemma get_active_profile_store:
  "snd (get_active_profile lib workspace_path fs) = snd (migrate_metadata lib workspace_path fs)"
  by (auto simp: get_active_profile_def get_profiles_data_def
      split: prod.splits result.splits pyval.splits option.splits if_splits sum.splits)

lemma example_up_to_date: "metadata_up_to_date example_lib (PStr ''/ws'') example_store"
  by code_simp

lemma example_active_profile:
  "get_active_profile example_lib (PStr ''/ws'') example_store
     = (Returned (PStr ''default''), example_store)"
  by code_simp

lemma example_metadata:
  "get_metadata example_lib (PStr ''/ws'') (PStr ''default'') (PStr ''build'') example_store
     = (Returned (PDict [(''jobs'', PInt 4)]), example_store)"
  by code_simp

lemma example_migrate: "fst (migrate_metadata example_lib (PStr ''/ws'') example_store) = Returned ()"
  by code_simp

text \<open>
  C9, amended. \<^verbatim>\<open>get_active_metadata\<close> never returns a value other than \<^verbatim>\<open>None\<close>:
  for every workspace path and verb it returns \<^verbatim>\<open>None\<close> or raises. It returns
  \<^verbatim>\<open>None\<close>, dropping the metadata, exactly when the lookup of the active profile and
  \<^verbatim>\<open>get_metadata\<close> both return; when one of them raises, it raises the same error. It
  raises \<^verbatim>\<open>TypeError\<close> when the workspace path is \<^verbatim>\<open>None\<close>, and also when the verb
  is \<^verbatim>\<open>None\<close> or empty, the lookup of the active profile returns and the migration
  that \<^verbatim>\<open>get_metadata\<close> starts with returns.
\<close>

theorem get_active_metadata_returns_None_or_raises:
  "(case fst (get_active_metadata lib workspace_path verb fs) of
      Returned v \<Rightarrow> v = PNone | Raised e \<Rightarrow> True)
   \<and> (get_active_profile lib workspace_path fs = (Returned active_profile, fs1) \<longrightarrow>
      get_metadata lib workspace_path active_profile verb fs1 = (Returned metadata, fs2) \<longrightarrow>
      get_active_metadata lib workspace_path verb fs = (Returned PNone, fs2))
   \<and> (get_active_profile lib workspace_path fs = (Raised e, fs1) \<longrightarrow>
      get_active_metadata lib workspace_path verb fs = (Raised e, fs1))
   \<and> (get_active_profile lib workspace_path fs = (Returned active_profile, fs1) \<longrightarrow>
      get_metadata lib workspace_path active_profile verb fs1 = (Raised e, fs2) \<longrightarrow>
      get_active_metadata lib workspace_path verb fs = (Raised e, fs2))
   \<and> get_active_metadata lib PNone verb fs = (Raised TypeError, fs)
   \<and> (get_active_profile lib workspace_path fs = (Returned active_profile, fs1) \<longrightarrow>
      \<not> truthy verb \<longrightarrow>
      fst (migrate_metadata lib workspace_path fs1) = Returned () \<longrightarrow>
      fst (get_active_metadata lib workspace_path verb fs) = Raised TypeError)"
proof (intro conjI impI)
  show "case fst (get_active_metadata lib workspace_path verb fs) of
      Returned v \<Rightarrow> v = PNone | Raised e \<Rightarrow> True"
    by (auto simp: get_active_metadata_def split: prod.splits result.splits)
next
  assume "get_active_profile lib workspace_path fs = (Returned active_profile, fs1)"
    "get_metadata lib workspace_path active_profile verb fs1 = (Returned metadata, fs2)"
  then show "get_active_metadata lib workspace_path verb fs = (Returned PNone, fs2)"
    by (simp add: get_active_metadata_def)
next
  assume "get_active_profile lib workspace_path fs = (Raised e, fs1)"
  then show "get_active_metadata lib workspace_path verb fs = (Raised e, fs1)"
    by (simp add: get_active_metadata_def)
next
  assume "get_active_profile lib workspace_path fs = (Returned active_profile, fs1)"
    "get_metadata lib workspace_path active_profile verb fs1 = (Raised e, fs2)"
  then show "get_active_metadata lib workspace_path verb fs = (Raised e, fs2)"
    by (simp add: get_active_metadata_def)
next
  show "get_active_metadata lib PNone verb fs = (Raised TypeError, fs)"
    by (simp add: get_active_metadata_def get_active_profile_None get_metadata_None)
next
  assume p: "get_active_profile lib workspace_path fs = (Returned active_profile, fs1)"
    and v: "\<not> truthy verb"
    and m: "fst (migrate_metadata lib workspace_path fs1) = Returned ()"
  from get_metadata_falsy_verb[OF v m, of active_profile]
  show "fst (get_active_metadata lib workspace_path verb fs) = Raised TypeError"
    by (auto simp: get_active_metadata_def p split: prod.splits result.splits)
qed

theorem get_active_metadata_returns_None_or_raises_witness:
  "get_metadata example_lib (PStr ''/ws'') (PStr ''default'') (PStr ''build'') example_store
     = (Returned (PDict [(''jobs'', PInt 4)]), example_store)
   \<and> get_active_metadata example_lib (PStr ''/ws'') (PStr ''build'') example_store
     = (Returned PNone, example_store)
   \<and> fst (get_active_metadata example_lib (PStr ''/ws'') (PStr []) example_store)
     = Raised TypeError"
  using get_active_metadata_returns_None_or_raises [of example_lib "PStr ''/ws''" "PStr ''build''"
      example_store "PStr ''default''" example_store "PDict [(''jobs'', PInt 4)]" example_store]
    get_active_metadata_returns_None_or_raises [of example_lib "PStr ''/ws''" "PStr []"
      example_store "PStr ''default''" example_store]
    example_active_profile example_metadata example_migrate
  by (simp add: truthy_def)

text \<open>
  C9 as stated fails: with the workspace path \<^verbatim>\<open>None\<close>, or with the verb \<^verbatim>\<open>None\<close>,
  the function raises \<^verbatim>\<open>TypeError\<close>, and with a \<^verbatim>\<open>profiles.yaml\<close> that cannot be
  parsed it raises the parser's error; it does not return \<^verbatim>\<open>None\<close>.
\<close>

theorem get_active_metadata_raises_TypeError:
  "get_active_metadata example_lib PNone (PStr ''build'') example_store
     = (Raised TypeError, example_store)
   \<and> get_active_metadata example_lib (PStr ''/ws'') PNone example_store
     = (Raised TypeError, example_store)
   \<and> get_active_metadata example_lib (PStr ''/ws'') (PStr ''build'') example_broken_store
     = (Raised YAMLError, example_broken_store)"
  by code_simp

text \<open>
  C10, amended. \<^verbatim>\<open>update_active_metadata\<close> never returns: whatever its arguments,
  the call raises. Called with a workspace path, a verb and, or not, new data: when the
  lookup of the active profile returns, the call of itself with four positional arguments
  raises \<^verbatim>\<open>TypeError\<close>; when that lookup raises, the same error is raised. The new data
  are never written: the store is left as \<^verbatim>\<open>migrate_metadata\<close>, run by the lookup, leaves
  it, and it is unchanged when the metadata are up to date (there is no metadata
  directory, or its \<^verbatim>\<open>VERSION\<close> file holds the current version).
\<close>

theorem update_active_metadata_always_raises:
  "(\<forall>v. fst (update_active_metadata lib args fs) \<noteq> Returned v)
   \<and> (get_active_profile lib workspace_path fs = (Returned active_profile, fs1) \<longrightarrow>
        update_active_metadata lib [workspace_path, verb, new_data] fs = (Raised TypeError, fs1)
      \<and> update_active_metadata lib [workspace_path, verb] fs = (Raised TypeError, fs1))
   \<and> (get_active_profile lib workspace_path fs = (Raised e, fs1) \<longrightarrow>
        update_active_metadata lib [workspace_path, verb, new_data] fs = (Raised e, fs1)
      \<and> update_active_metadata lib [workspace_path, verb] fs = (Raised e, fs1))
   \<and> snd (update_active_metadata lib [workspace_path, verb, new_data] fs)
       = snd (migrate_metadata lib workspace_path fs)
   \<and> (metadata_up_to_date lib workspace_path fs \<longrightarrow>
        snd (update_active_metadata lib [workspace_path, verb, new_data] fs) = fs)"
proof -
  have never_returns: "\<forall>v. fst (update_active_metadata lib args fs) \<noteq> Returned v"
    by (auto simp: bind_parameters_def split: list.splits prod.splits result.splits)
  have self_call: "get_active_profile lib workspace_path fs = (Returned active_profile, fs1) \<longrightarrow>
        update_active_metadata lib [workspace_path, verb, new_data] fs = (Raised TypeError, fs1)
      \<and> update_active_metadata lib [workspace_path, verb] fs = (Raised TypeError, fs1)"
    by (auto simp: bind_parameters_def)
  have raised: "get_active_profile lib workspace_path fs = (Raised e, fs1) \<longrightarrow>
        update_active_metadata lib [workspace_path, verb, new_data] fs = (Raised e, fs1)
      \<and> update_active_metadata lib [workspace_path, verb] fs = (Raised e, fs1)"
    by (auto simp: bind_parameters_def)
  have store: "snd (update_active_metadata lib [workspace_path, verb, new_data] fs)
                 = snd (migrate_metadata lib workspace_path fs)"
    using get_active_profile_store [of lib workspace_path fs]
    by (auto simp: bind_parameters_def split: prod.splits result.splits)
  have unchanged: "metadata_up_to_date lib workspace_path fs \<longrightarrow>
        snd (update_active_metadata lib [workspace_path, verb, new_data] fs) = fs"
    unfolding store by (auto dest: migrate_metadata_store)
  show ?thesis using never_returns self_call raised store unchanged by blast
qed

theorem update_active_metadata_always_raises_witness:
  "update_active_metadata example_lib
     [PStr ''/ws'', PStr ''build'', PDict [(''jobs'', PInt 8)]] example_store
     = (Raised TypeError, example_store)
   \<and> get_metadata example_lib (PStr ''/ws'') (PStr ''default'') (PStr ''build'') example_store
     = (Returned (PDict [(''jobs'', PInt 4)]), example_store)"
  using update_active_metadata_always_raises [of example_lib "[]" example_store
      "PStr ''/ws''" "PStr ''default''" example_store "PStr ''build''" "PDict [(''jobs'', PInt 8)]"]
    example_active_profile example_metadata example_up_to_date
  by simp

text \<open>
  C10 as stated fails: with a \<^verbatim>\<open>profiles.yaml\<close> that cannot be parsed the call raises
  the parser's error, not \<^verbatim>\<open>TypeError\<close>; and on a metadata directory without a
  \<^verbatim>\<open>VERSION\<close> file the call raises \<^verbatim>\<open>TypeError\<close> after \<^verbatim>\<open>migrate_metadata\<close> has
  written that file, so the store is not as it was.
\<close>

theorem update_active_metadata_other_error_and_store_written:
  "update_active_metadata example_lib
     [PStr ''/ws'', PStr ''build'', PDict [(''jobs'', PInt 8)]] example_broken_store
     = (Raised YAMLError, example_broken_store)
   \<and> lookup example_fresh_store [''ws'', ''.catkin_tools'', ''VERSION''] = None
   \<and> fst (update_active_metadata example_lib
        [PStr ''/ws'', PStr ''build'', PDict [(''jobs'', PInt 8)]] example_fresh_store)
     = Raised TypeError
   \<and> lookup (snd (update_active_metadata example_lib
        [PStr ''/ws'', PStr ''build'', PDict [(''jobs'', PInt 8)]] example_fresh_store))
        [''ws'', ''.catkin_tools'', ''VERSION''] = Some (File ''0.9.0'')"
  by code_simp

section \<open>Facts about the file system\<close>

lemma lookup_update: "k \<noteq> [] \<Longrightarrow> lookup (AList.update k v fs) q = (if q = k then Some v else lookup fs q)"
  by (simp add: lookup_def update_conv')


lemma lookup_None_ne: "lookup fs p = None \<Longrightarrow> p \<noteq> []"
  by (auto simp: lookup_def)



lemma extends_fs_lookup: "extends_fs fs fs' \<Longrightarrow> lookup fs p = Some nd \<Longrightarrow> lookup fs' p = Some nd"
  by (auto simp: extends_fs_def)

lemma resolve_walk_induct [case_names Nil Cons]:
  assumes nil: "\<And>n fs cur. P n fs cur []"
    and cons: "\<And>n fs cur c rest.
      (lookup fs cur = Some Dir \<Longrightarrow> c = ''.'' \<Longrightarrow> P n fs cur rest) \<Longrightarrow>
      (lookup fs cur = Some Dir \<Longrightarrow> c = ''..'' \<Longrightarrow> lookup fs (butlast cur) = Some Dir
         \<Longrightarrow> P n fs (butlast cur) rest) \<Longrightarrow>
      (\<And>t m. lookup fs cur = Some Dir \<Longrightarrow> c \<noteq> ''.'' \<Longrightarrow> c \<noteq> ''..''
         \<Longrightarrow> lookup fs (cur @ [c]) = Some (Link t) \<Longrightarrow> n = Suc m \<Longrightarrow> P m fs [] (t @ rest)) \<Longrightarrow>
      (\<And>nd. lookup fs cur = Some Dir \<Longrightarrow> c \<noteq> ''.'' \<Longrightarrow> c \<noteq> ''..''
         \<Longrightarrow> lookup fs (cur @ [c]) = Some nd \<Longrightarrow> (\<forall>t. nd \<noteq> Link t) \<Longrightarrow> P n fs (cur @ [c]) rest) \<Longrightarrow>
      P n fs cur (c # rest)"
  shows "P n fs cur p"
proof (induction n fs cur p rule: resolve.induct)
  case (1 n fs cur)
  show ?case by (rule nil)
next
  case (2 n fs cur c rest)
  show ?case
  proof (rule cons)
    assume "lookup fs cur = Some Dir" "c = ''.''"
    then show "P n fs cur rest" using 2(1) by simp
  next
    assume "lookup fs cur = Some Dir" "c = ''..''" "lookup fs (butlast cur) = Some Dir"
    then show "P n fs (butlast cur) rest" using 2(2) by simp
  next
    fix t m
    assume a: "lookup fs cur = Some Dir" "c \<noteq> ''.''" "c \<noteq> ''..''"
      "lookup fs (cur @ [c]) = Some (Link t)" "n = Suc m"
    show "P m fs [] (t @ rest)"
      by (rule 2(5)[OF a(1) refl a(2) a(3) a(4) refl a(5)])
  next
    fix nd
    assume a: "lookup fs cur = Some Dir" "c \<noteq> ''.''" "c \<noteq> ''..''"
      "lookup fs (cur @ [c]) = Some nd" "\<forall>t. nd \<noteq> Link t"
    show "P n fs (cur @ [c]) rest"
    proof (cases nd)
      case Dir
      with a show ?thesis using 2(3) by simp
    next
      case (File x)
      with a show ?thesis using 2(4) by simp
    next
      case (Link t)
      with a show ?thesis by simp
    qed
  qed
qed

lemma resolve_Cons_dot:
  "lookup fs cur = Some Dir \<Longrightarrow> resolve n fs cur (''.'' # rest) = resolve n fs cur rest"
  by simp

lemma resolve_Cons_link:
  "lookup fs cur = Some Dir \<Longrightarrow> c \<noteq> ''.'' \<Longrightarrow> c \<noteq> ''..'' \<Longrightarrow>
   lookup fs (cur @ [c]) = Some (Link t) \<Longrightarrow>
   resolve n fs cur (c # rest) = (case n of 0 \<Rightarrow> Inl TooManyLinks | Suc m \<Rightarrow> resolve m fs [] (t @ rest))"
  by simp

lemma resolve_Cons_node:
  "lookup fs cur = Some Dir \<Longrightarrow> c \<noteq> ''.'' \<Longrightarrow> c \<noteq> ''..'' \<Longrightarrow>
   lookup fs (cur @ [c]) = Some nd \<Longrightarrow> \<forall>t. nd \<noteq> Link t \<Longrightarrow>
   resolve n fs cur (c # rest) = resolve n fs (cur @ [c]) rest"
  by (cases nd) simp_all

lemma resolve_Cons_None:
  "lookup fs cur = Some Dir \<Longrightarrow> c \<noteq> ''.'' \<Longrightarrow> c \<noteq> ''..'' \<Longrightarrow>
   lookup fs (cur @ [c]) = None \<Longrightarrow> resolve n fs cur (c # rest) = Inl FileNotFoundError"
  by simp

lemma resolve_Cons_Inr:
  assumes "resolve n fs cur (c # rest) = Inr r"
  shows "lookup fs cur = Some Dir \<and>
     (if c = ''.'' then resolve n fs cur rest = Inr r
      else if c = ''..'' then lookup fs (butlast cur) = Some Dir \<and> resolve n fs (butlast cur) rest = Inr r
      else (\<exists>nd. lookup fs (cur @ [c]) = Some nd \<and>
              (case nd of Link t \<Rightarrow> (\<exists>m. n = Suc m \<and> resolve m fs [] (t @ rest) = Inr r)
               | _ \<Rightarrow> resolve n fs (cur @ [c]) rest = Inr r)))"
  using assms by (auto split: option.splits node.splits nat.splits if_splits)

lemma resolve_extends:
  "extends_fs fs fs' \<Longrightarrow> resolve n fs cur p = Inr r \<Longrightarrow> resolve n fs' cur p = Inr r"
proof (induction n fs cur p rule: resolve_walk_induct)
  case (Nil n fs cur)
  then show ?case by simp
next
  case (Cons n fs cur c rest)
  from resolve_Cons_Inr[OF Cons.prems(2)] have d: "lookup fs cur = Some Dir" by simp
  then have d': "lookup fs' cur = Some Dir"
    using Cons.prems(1) by (rule extends_fs_lookup[rotated])
  show ?case
  proof (cases "c = ''.''")
    case True
    with Cons d d' show ?thesis by simp
  next
    case ndot: False
    show ?thesis
    proof (cases "c = ''..''")
      case True
      with resolve_Cons_Inr[OF Cons.prems(2)] ndot have b: "lookup fs (butlast cur) = Some Dir"
        and r: "resolve n fs (butlast cur) rest = Inr r" by simp_all
      from b have b': "lookup fs' (butlast cur) = Some Dir"
        using Cons.prems(1) by (rule extends_fs_lookup[rotated])
      from Cons.IH(2)[OF d True b Cons.prems(1) r] d' ndot True b' show ?thesis by simp
    next
      case nddot: False
      from resolve_Cons_Inr[OF Cons.prems(2)] ndot nddot obtain nd where
        nd: "lookup fs (cur @ [c]) = Some nd"
        and c: "(case nd of Link t \<Rightarrow> (\<exists>m. n = Suc m \<and> resolve m fs [] (t @ rest) = Inr r)
               | _ \<Rightarrow> resolve n fs (cur @ [c]) rest = Inr r)"
        by auto
      from nd have nd': "lookup fs' (cur @ [c]) = Some nd"
        using Cons.prems(1) by (rule extends_fs_lookup[rotated])
      show ?thesis
      proof (cases "\<exists>t. nd = Link t")
        case True
        then obtain t where t: "nd = Link t" by blast
        with c obtain m where m: "n = Suc m" "resolve m fs [] (t @ rest) = Inr r" by auto
        from Cons.IH(3)[OF d ndot nddot nd[unfolded t] m(1) Cons.prems(1) m(2)]
        show ?thesis using d' ndot nddot nd' t m(1) by simp
      next
        case False
        then have nl: "\<forall>t. nd \<noteq> Link t" by blast
        with c have r: "resolve n fs (cur @ [c]) rest = Inr r" by (cases nd) auto
        from Cons.IH(4)[OF d ndot nddot nd nl Cons.prems(1) r]
        show ?thesis using resolve_Cons_node[OF d' ndot nddot nd' nl] by simp
      qed
    qed
  qed
qed

lemma resolve_append:
  "resolve n fs cur (xs @ ys) =
     (case resolve n fs cur xs of Inl e \<Rightarrow> Inl e | Inr (m, q) \<Rightarrow> resolve m fs q ys)"
proof (induction n fs cur xs rule: resolve_walk_induct)
  case (Nil n fs cur)
  then show ?case by simp
next
  case (Cons n fs cur c rest)
  show ?case
  proof (cases "lookup fs cur = Some Dir")
    case False
    then show ?thesis by (auto split: option.splits node.splits)
  next
    case d: True
    show ?thesis
    proof (cases "c = ''.''")
      case True
      with Cons.IH(1)[OF d] d show ?thesis by simp
    next
      case ndot: False
      show ?thesis
      proof (cases "c = ''..''")
        case True
        show ?thesis
        proof (cases "lookup fs (butlast cur) = Some Dir")
          case b: True
          with Cons.IH(2)[OF d True b] d True show ?thesis by simp
        next
          case False
          with d True show ?thesis by (auto split: option.splits node.splits)
        qed
      next
        case nddot: False
        show ?thesis
        proof (cases "lookup fs (cur @ [c])")
          case None
          with d ndot nddot show ?thesis by simp
        next
          case (Some nd)
          show ?thesis
          proof (cases "\<exists>t. nd = Link t")
            case True
            then obtain t where t: "nd = Link t" by blast
            show ?thesis
            proof (cases n)
              case 0
              with d ndot nddot Some t show ?thesis by simp
            next
              case (Suc m)
              from Cons.IH(3)[OF d ndot nddot Some[unfolded t] Suc]
              show ?thesis using d ndot nddot Some t Suc by simp
            qed
          next
            case False
            then have nl: "\<forall>t. nd \<noteq> Link t" by blast
            from Cons.IH(4)[OF d ndot nddot Some nl]
            show ?thesis
              using resolve_Cons_node[OF d ndot nddot Some nl, of n rest]
                resolve_Cons_node[OF d ndot nddot Some nl, of n "rest @ ys"] by simp
          qed
        qed
      qed
    qed
  qed
qed

lemma resolve_fuel_le: "resolve n fs cur p = Inr (m, q) \<Longrightarrow> m \<le> n"
proof (induction n fs cur p rule: resolve_walk_induct)
  case (Nil n fs cur)
  then show ?case by simp
next
  case (Cons n fs cur c rest)
  note r = resolve_Cons_Inr[OF Cons.prems]
  then have d: "lookup fs cur = Some Dir" by simp
  show ?case
  proof (cases "c = ''.''")
    case True
    with r Cons.IH(1)[OF d] show ?thesis by simp
  next
    case ndot: False
    show ?thesis
    proof (cases "c = ''..''")
      case True
      with r ndot Cons.IH(2)[OF d] show ?thesis by simp
    next
      case nddot: False
      from r ndot nddot obtain nd where
        nd: "lookup fs (cur @ [c]) = Some nd"
        and c: "(case nd of Link t \<Rightarrow> (\<exists>m'. n = Suc m' \<and> resolve m' fs [] (t @ rest) = Inr (m, q))
               | _ \<Rightarrow> resolve n fs (cur @ [c]) rest = Inr (m, q))"
        by auto
      show ?thesis
      proof (cases "\<exists>t. nd = Link t")
        case True
        then obtain t where t: "nd = Link t" by blast
        with c obtain m' where m: "n = Suc m'" "resolve m' fs [] (t @ rest) = Inr (m, q)" by auto
        from Cons.IH(3)[OF d ndot nddot nd[unfolded t] m] m(1) show ?thesis by simp
      next
        case False
        then have nl: "\<forall>t. nd \<noteq> Link t" by blast
        with c have "resolve n fs (cur @ [c]) rest = Inr (m, q)" by (cases nd) auto
        from Cons.IH(4)[OF d ndot nddot nd nl this] show ?thesis .
      qed
    qed
  qed
qed

lemma resolve_more_fuel:
  "resolve n fs cur p = Inr (m, q) \<Longrightarrow> resolve (n + k) fs cur p = Inr (m + k, q)"
proof (induction n fs cur p rule: resolve_walk_induct)
  case (Nil n fs cur)
  then show ?case by simp
next
  case (Cons n fs cur c rest)
  note r = resolve_Cons_Inr[OF Cons.prems]
  then have d: "lookup fs cur = Some Dir" by simp
  show ?case
  proof (cases "c = ''.''")
    case True
    with r Cons.IH(1)[OF d] d show ?thesis by simp
  next
    case ndot: False
    show ?thesis
    proof (cases "c = ''..''")
      case True
      with r ndot Cons.IH(2)[OF d] d show ?thesis by simp
    next
      case nddot: False
      from r ndot nddot obtain nd where
        nd: "lookup fs (cur @ [c]) = Some nd"
        and c: "(case nd of Link t \<Rightarrow> (\<exists>m'. n = Suc m' \<and> resolve m' fs [] (t @ rest) = Inr (m, q))
               | _ \<Rightarrow> resolve n fs (cur @ [c]) rest = Inr (m, q))"
        by auto
      show ?thesis
      proof (cases "\<exists>t. nd = Link t")
        case True
        then obtain t where t: "nd = Link t" by blast
        with c obtain m' where m: "n = Suc m'" "resolve m' fs [] (t @ rest) = Inr (m, q)" by auto
        from Cons.IH(3)[OF d ndot nddot nd[unfolded t] m] m(1) d ndot nddot nd t
        show ?thesis by simp
      next
        case False
        then have nl: "\<forall>t. nd \<noteq> Link t" by blast
        with c have "resolve n fs (cur @ [c]) rest = Inr (m, q)" by (cases nd) auto
        from Cons.IH(4)[OF d ndot nddot nd nl this]
        show ?thesis using resolve_Cons_node[OF d ndot nddot nd nl, of "n + k" rest] by simp
      qed
    qed
  qed
qed

lemma resolve_realpath:
  "resolve n fs cur p = Inr (m, q) \<Longrightarrow> realpath_from n fs cur p = Some q"
proof (induction n fs cur p rule: resolve_walk_induct)
  case (Nil n fs cur)
  then show ?case by simp
next
  case (Cons n fs cur c rest)
  note r = resolve_Cons_Inr[OF Cons.prems]
  then have d: "lookup fs cur = Some Dir" by simp
  show ?case
  proof (cases "c = ''.''")
    case True
    with r Cons.IH(1)[OF d] d show ?thesis by simp
  next
    case ndot: False
    show ?thesis
    proof (cases "c = ''..''")
      case True
      with r ndot Cons.IH(2)[OF d] d show ?thesis by simp
    next
      case nddot: False
      from r ndot nddot obtain nd where
        nd: "lookup fs (cur @ [c]) = Some nd"
        and c: "(case nd of Link t \<Rightarrow> (\<exists>m'. n = Suc m' \<and> resolve m' fs [] (t @ rest) = Inr (m, q))
               | _ \<Rightarrow> resolve n fs (cur @ [c]) rest = Inr (m, q))"
        by auto
      show ?thesis
      proof (cases "\<exists>t. nd = Link t")
        case True
        then obtain t where t: "nd = Link t" by blast
        with c obtain m' where m: "n = Suc m'" "resolve m' fs [] (t @ rest) = Inr (m, q)" by auto
        from Cons.IH(3)[OF d ndot nddot nd[unfolded t] m] m(1) d ndot nddot nd t
        show ?thesis by simp
      next
        case False
        then have nl: "\<forall>t. nd \<noteq> Link t" by blast
        with c have "resolve n fs (cur @ [c]) rest = Inr (m, q)" by (cases nd) auto
        from Cons.IH(4)[OF d ndot nddot nd nl this]
        show ?thesis using ndot nddot nd nl by (cases nd) auto
      qed
    qed
  qed
qed

lemma resolve_real_node:
  "resolve n fs cur p = Inr (m, q) \<Longrightarrow> real_node fs cur \<Longrightarrow> real_node fs q"
proof (induction n fs cur p rule: resolve_walk_induct)
  case (Nil n fs cur)
  then show ?case by simp
next
  case (Cons n fs cur c rest)
  note r = resolve_Cons_Inr[OF Cons.prems(1)]
  then have d: "lookup fs cur = Some Dir" by simp
  show ?case
  proof (cases "c = ''.''")
    case True
    with r Cons.IH(1)[OF d] Cons.prems(2) show ?thesis by simp
  next
    case ndot: False
    show ?thesis
    proof (cases "c = ''..''")
      case True
      with r ndot have b: "lookup fs (butlast cur) = Some Dir"
        and rr: "resolve n fs (butlast cur) rest = Inr (m, q)" by simp_all
      from b have "real_node fs (butlast cur)" by (simp add: real_node_def)
      from Cons.IH(2)[OF d True b rr this] show ?thesis .
    next
      case nddot: False
      from r ndot nddot obtain nd where
        nd: "lookup fs (cur @ [c]) = Some nd"
        and c: "(case nd of Link t \<Rightarrow> (\<exists>m'. n = Suc m' \<and> resolve m' fs [] (t @ rest) = Inr (m, q))
               | _ \<Rightarrow> resolve n fs (cur @ [c]) rest = Inr (m, q))"
        by auto
      show ?thesis
      proof (cases "\<exists>t. nd = Link t")
        case True
        then obtain t where t: "nd = Link t" by blast
        with c obtain m' where m: "n = Suc m'" "resolve m' fs [] (t @ rest) = Inr (m, q)" by auto
        have "real_node fs []" by (simp add: real_node_def lookup_def)
        from Cons.IH(3)[OF d ndot nddot nd[unfolded t] m this] show ?thesis .
      next
        case False
        then have nl: "\<forall>t. nd \<noteq> Link t" by blast
        with c have rr: "resolve n fs (cur @ [c]) rest = Inr (m, q)" by (cases nd) auto
        from nd nl have "real_node fs (cur @ [c])" by (cases nd) (auto simp: real_node_def)
        from Cons.IH(4)[OF d ndot nddot nd nl rr this] show ?thesis .
      qed
    qed
  qed
qed

lemma stat_Inr: "stat fs p = Inr q \<longleftrightarrow> (\<exists>m. resolve SYMLOOP_MAX fs [] p = Inr (m, q))"
  by (auto simp: stat_def split: sum.splits)

lemma path_exists_stat: "path_exists fs p \<longleftrightarrow> (\<exists>q. stat fs p = Inr q)"
  by (auto simp: path_exists_def split: sum.splits)

lemma stat_extends: "extends_fs fs fs' \<Longrightarrow> stat fs p = Inr q \<Longrightarrow> stat fs' p = Inr q"
  unfolding stat_Inr by (blast dest: resolve_extends)


lemma real_node_root: "real_node fs []"
  by (simp add: real_node_def lookup_def)

lemma stat_real_node: "stat fs p = Inr q \<Longrightarrow> real_node fs q"
  unfolding stat_Inr by (blast dest: resolve_real_node intro: real_node_root)

lemma real_node_extends: "extends_fs fs fs' \<Longrightarrow> real_node fs q \<Longrightarrow> real_node fs' q"
  by (auto simp: real_node_def extends_fs_def split: option.splits node.splits)

lemma isdir_iff: "isdir fs p \<longleftrightarrow> (\<exists>q. stat fs p = Inr q \<and> lookup fs q = Some Dir)"
  by (auto simp: isdir_def split: sum.splits)

lemma isdir_extends: "extends_fs fs fs' \<Longrightarrow> isdir fs p \<Longrightarrow> isdir fs' p"
  unfolding isdir_iff by (blast dest: stat_extends extends_fs_lookup)

lemma read_file_Inr:
  "read_file fs p = Inr c \<longleftrightarrow> (\<exists>q. stat fs p = Inr q \<and> lookup fs q = Some (File c))"
  by (auto simp: read_file_def split: sum.splits option.splits node.splits)

lemma read_file_extends: "extends_fs fs fs' \<Longrightarrow> read_file fs p = Inr c \<Longrightarrow> read_file fs' p = Inr c"
  unfolding read_file_Inr by (blast dest: stat_extends extends_fs_lookup)

lemma locate_plain:
  "p \<noteq> [] \<Longrightarrow> last p \<noteq> ''.'' \<Longrightarrow> last p \<noteq> ''..'' \<Longrightarrow>
   locate fs p = Inr q \<longleftrightarrow>
     (\<exists>m d. resolve SYMLOOP_MAX fs [] (butlast p) = Inr (m, d) \<and> lookup fs d = Some Dir \<and> q = d @ [last p])"
  by (auto simp: locate_def split: sum.splits option.splits node.splits)

lemma locate_dots:
  "p \<noteq> [] \<Longrightarrow> last p = ''.'' \<or> last p = ''..'' \<Longrightarrow> locate fs p = stat fs p"
  by (auto simp: locate_def)

lemma locate_extends:
  assumes e: "extends_fs fs fs'" and l: "locate fs p = Inr q"
  shows "locate fs' p = Inr q"
proof (cases "p = []")
  case True
  with l show ?thesis by (simp add: locate_def)
next
  case ne: False
  show ?thesis
  proof (cases "last p = ''.'' \<or> last p = ''..''")
    case True
    with ne l stat_extends[OF e, of p q] show ?thesis by (simp add: locate_dots)
  next
    case False
    with ne l obtain m d where d: "resolve SYMLOOP_MAX fs [] (butlast p) = Inr (m, d)"
      "lookup fs d = Some Dir" "q = d @ [last p]"
      using locate_plain[of p fs q] by auto
    from resolve_extends[OF e d(1)] extends_fs_lookup[OF e d(2)] d(3) ne False
    show ?thesis using locate_plain[of p fs' q] by auto
  qed
qed

lemma lstat_Some: "lstat fs p = Some nd \<longleftrightarrow> (\<exists>q. locate fs p = Inr q \<and> lookup fs q = Some nd)"
  by (auto simp: lstat_def split: sum.splits)

lemma lstat_extends: "extends_fs fs fs' \<Longrightarrow> lstat fs p = Some nd \<Longrightarrow> lstat fs' p = Some nd"
  unfolding lstat_Some by (blast dest: locate_extends extends_fs_lookup)

lemma islink_lstat: "islink fs p \<longleftrightarrow> (\<exists>t. lstat fs p = Some (Link t))"
  by (auto simp: islink_def split: option.splits node.splits)

lemma islink_extends: "extends_fs fs fs' \<Longrightarrow> lstat fs p \<noteq> None \<Longrightarrow> islink fs' p = islink fs p"
  unfolding islink_lstat by (auto dest: lstat_extends)

lemma realpath_exists: "stat fs p = Inr q \<Longrightarrow> realpath fs p = q"
  unfolding stat_Inr realpath_def by (auto dest: resolve_realpath)

lemma realpath_extends: "extends_fs fs fs' \<Longrightarrow> path_exists fs p \<Longrightarrow> realpath fs' p = realpath fs p"
  unfolding path_exists_stat by (auto dest: stat_extends simp: realpath_exists)

lemma resolve_snoc:
  "resolve n fs cur (xs @ [c]) =
     (case resolve n fs cur xs of Inl e \<Rightarrow> Inl e | Inr (m, d) \<Rightarrow> resolve m fs d [c])"
  by (rule resolve_append)



lemma lstat_Link_plain:
  assumes "lstat fs p = Some (Link t)"
  shows "p \<noteq> [] \<and> last p \<noteq> ''.'' \<and> last p \<noteq> ''..''"
proof -
  from assms obtain q where q: "locate fs p = Inr q" "lookup fs q = Some (Link t)"
    by (auto simp: lstat_def split: sum.splits)
  have "p \<noteq> []" using q by (auto simp: locate_def lookup_def)
  moreover have "\<not> (last p = ''.'' \<or> last p = ''..'')"
  proof
    assume "last p = ''.'' \<or> last p = ''..''"
    with q(1) \<open>p \<noteq> []\<close> have "stat fs p = Inr q" by (simp add: locate_def)
    from stat_real_node[OF this] q(2) show False by (simp add: real_node_def)
  qed
  ultimately show ?thesis by simp
qed

lemma stat_through_link:
  assumes l: "lstat fs p = Some (Link t)" and s: "stat fs p = Inr r"
  shows "stat fs t = Inr r"
proof -
  from lstat_Link_plain[OF l] have pl: "p \<noteq> []" "last p \<noteq> ''.''" "last p \<noteq> ''..''" by simp_all
  from l obtain q where q: "locate fs p = Inr q" "lookup fs q = Some (Link t)"
    by (auto simp: lstat_def split: sum.splits)
  from q(1) pl obtain m1 d where d: "resolve SYMLOOP_MAX fs [] (butlast p) = Inr (m1, d)"
    "lookup fs d = Some Dir" "q = d @ [last p]"
    using locate_plain[of p fs q] by auto
  from s obtain m where "resolve SYMLOOP_MAX fs [] (butlast p @ [last p]) = Inr (m, r)"
    unfolding stat_Inr using pl(1) by auto
  with d(1) have "resolve m1 fs d [last p] = Inr (m, r)"
    unfolding resolve_snoc by simp
  with d(2,3) q(2) pl obtain k where k: "m1 = Suc k" "resolve k fs [] t = Inr (m, r)"
    by (auto split: nat.splits)
  from resolve_fuel_le[OF d(1)] k(1) have "k \<le> SYMLOOP_MAX" by simp
  with resolve_more_fuel[OF k(2), of "SYMLOOP_MAX - k"]
  show ?thesis unfolding stat_Inr by auto
qed

lemma link_same_realpath:
  assumes "lstat fs p = Some (Link t)" "path_exists fs p"
  shows "path_exists fs t \<and> realpath fs p = realpath fs t"
proof -
  from assms(2) obtain r where r: "stat fs p = Inr r" unfolding path_exists_stat by blast
  from stat_through_link[OF assms(1) r] r show ?thesis
    unfolding path_exists_stat by (auto simp: realpath_exists)
qed

lemma os_symlink_Inr:
  "os_symlink src dst fs = Inr fs' \<longleftrightarrow>
     (\<exists>q. locate fs dst = Inr q \<and> lookup fs q = None \<and> fs' = AList.update q (Link src) fs)"
  by (auto simp: os_symlink_def split: sum.splits)

lemma os_mkdir_Inr:
  "os_mkdir p fs = Inr fs' \<longleftrightarrow>
     (\<exists>q. locate fs p = Inr q \<and> lookup fs q = None \<and> fs' = AList.update q Dir fs)"
  by (auto simp: os_mkdir_def split: sum.splits)

lemma update_extends:
  assumes "lookup fs q = None"
  shows "extends_fs fs (AList.update q nd fs)"
proof -
  from assms have "q \<noteq> []" by (rule lookup_None_ne)
  with assms show ?thesis by (auto simp: extends_fs_def lookup_update)
qed

lemma os_symlink_extends: "os_symlink src dst fs = Inr fs' \<Longrightarrow> extends_fs fs fs'"
  unfolding os_symlink_Inr by (auto intro: update_extends)

lemma os_mkdir_extends: "os_mkdir p fs = Inr fs' \<Longrightarrow> extends_fs fs fs'"
  unfolding os_mkdir_Inr by (auto intro: update_extends)

lemma os_symlink_lstat:
  assumes "os_symlink src dst fs = Inr fs'"
  shows "lstat fs' dst = Some (Link src)"
proof -
  from assms obtain q where q: "locate fs dst = Inr q" "lookup fs q = None"
    "fs' = AList.update q (Link src) fs" unfolding os_symlink_Inr by blast
  from locate_extends[OF os_symlink_extends[OF assms] q(1)] q(2,3)
  show ?thesis by (auto simp: lstat_def lookup_update dest: lookup_None_ne)
qed

lemma os_mkdir_lstat:
  assumes "os_mkdir p fs = Inr fs'"
  shows "lstat fs' p = Some Dir"
proof -
  from assms obtain q where q: "locate fs p = Inr q" "lookup fs q = None"
    "fs' = AList.update q Dir fs" unfolding os_mkdir_Inr by blast
  from locate_extends[OF os_mkdir_extends[OF assms] q(1)] q(2,3)
  show ?thesis by (auto simp: lstat_def lookup_update dest: lookup_None_ne)
qed









section \<open>The ledger routine\<close>















lemma logger_out_fields [simp]:
  "w_fs (logger_out m w) = w_fs w" "w_collisions (logger_out m w) = w_collisions w"
  "w_manifests (logger_out m w) = w_manifests w" "w_log (logger_out m w) = w_log w @ [LogOut m]"
  by (simp_all add: logger_out_def)

lemma logger_err_fields [simp]:
  "w_fs (logger_err m w) = w_fs w" "w_collisions (logger_err m w) = w_collisions w"
  "w_manifests (logger_err m w) = w_manifests w" "w_log (logger_err m w) = w_log w @ [LogErr m]"
  by (simp_all add: logger_err_def)
























end
